(* ===== verification/Prelude.thy ===== *)
theory Prelude
  imports Complex_Main
begin

text \<open>
  Shared vocabulary of the development: the JavaScript semantics that
  \<^verbatim>\<open>src/script.js\<close> relies on, written once.
  \<^item> JavaScript numbers are modelled as \<open>real\<close>: every operation of the script
    (\<open>+\<close>, \<open>-\<close>, \<open>*\<close>, \<open>/\<close>, \<open>Math.floor\<close>, \<open>Math.round\<close>, \<open>%\<close>) is
    computed exactly, IEEE rounding is not modelled;
  \<^item> the JavaScript value \<open>undefined\<close>, produced by an array read out of range or a
    \<open>switch\<close> without a matching case, is \<open>None\<close> of an option type;
  \<^item> strings are \<open>string\<close>; every character the script writes is a UTF-16 code unit
    below 256 (Latin-1), so a JavaScript string is exactly a list of Isabelle
    \<open>char\<close>s, one per code unit.
  The lemmas below are the facts about these helpers that the component theories share;
  they are collected in \<open>js_simps\<close>.
\<close>

named_theorems js_simps "facts about the JavaScript helpers"

type_synonym jsnum = real
type_synonym timestamp = real

subsection \<open>Latin-1 characters of the script's Portuguese strings\<close>

abbreviation a_tilde :: char where "a_tilde \<equiv> CHR 0xE3"
abbreviation a_acute :: char where "a_acute \<equiv> CHR 0xE1"
abbreviation e_acute :: char where "e_acute \<equiv> CHR 0xE9"
abbreviation i_acute :: char where "i_acute \<equiv> CHR 0xED"
abbreviation c_cedil :: char where "c_cedil \<equiv> CHR 0xE7"
abbreviation degree_sign :: char where "degree_sign \<equiv> CHR 0xB0"

subsection \<open>Reading an array: \<open>xs[i]\<close>\<close>

text \<open>An index outside \<open>0 .. length - 1\<close> yields \<open>undefined\<close>, not an exception.\<close>

definition js_index :: "'a list \<Rightarrow> int \<Rightarrow> 'a option" where
  "js_index xs i = (if 0 \<le> i \<and> i < int (length xs) then Some (xs ! nat i) else None)"

text \<open>A template literal \<open>`${v}`\<close> prints \<open>undefined\<close> as the text \<open>undefined\<close>.\<close>

definition js_template :: "string option \<Rightarrow> string" where
  "js_template v = (case v of Some s \<Rightarrow> s | None \<Rightarrow> ''undefined'')"

subsection \<open>Number operations\<close>

text \<open>\<open>x % y\<close> truncates the quotient towards zero, so the result has the sign of \<open>x\<close>.\<close>

definition js_trunc :: "real \<Rightarrow> int" where
  "js_trunc x = (if 0 \<le> x then \<lfloor>x\<rfloor> else \<lceil>x\<rceil>)"

definition js_rem :: "real \<Rightarrow> real \<Rightarrow> real" where
  "js_rem x y = x - y * of_int (js_trunc (x / y))"

text \<open>\<open>Math.round\<close> rounds halves towards \<open>+\<infinity>\<close>.\<close>

definition js_round :: "real \<Rightarrow> int" where
  "js_round x = \<lfloor>x + 1 / 2\<rfloor>"

text \<open>
  \<open>String(n)\<close> for a number \<open>n\<close> with an integral value (the only numbers the
  script prints): its decimal digits, with a minus sign when negative.
\<close>

definition digit_char :: "nat \<Rightarrow> char" where
  "digit_char d = char_of (48 + d)"

fun nat_to_string :: "nat \<Rightarrow> string" where
  "nat_to_string n =
     (if n < 10 then [digit_char n] else nat_to_string (n div 10) @ [digit_char (n mod 10)])"

declare nat_to_string.simps [simp del]

definition int_to_string :: "int \<Rightarrow> string" where
  "int_to_string i = (if i < 0 then CHR ''-'' # nat_to_string (nat (- i)) else nat_to_string (nat i))"

text \<open>Reading a decimal numeral back: the value of a non-empty string of digits.\<close>

definition is_digit :: "char \<Rightarrow> bool" where
  "is_digit c \<longleftrightarrow> 48 \<le> (of_char c :: nat) \<and> (of_char c :: nat) \<le> 57"

definition parse_nat :: "string \<Rightarrow> nat option" where
  "parse_nat s =
     (if s \<noteq> [] \<and> list_all is_digit s
      then Some (foldl (\<lambda>acc c. 10 * acc + (of_char c - 48)) 0 s) else None)"

subsection \<open>Shared lemmas\<close>

lemma js_index_in_range [js_simps]:
  "0 \<le> i \<Longrightarrow> i < int (length xs) \<Longrightarrow> js_index xs i = Some (xs ! nat i)"
  by (simp add: js_index_def)

lemma js_index_out_of_range [js_simps]:
  "i < 0 \<or> int (length xs) \<le> i \<Longrightarrow> js_index xs i = None"
  by (auto simp: js_index_def)

lemma js_index_None_iff:
  "js_index xs i = None \<longleftrightarrow> i < 0 \<or> int (length xs) \<le> i"
  by (auto simp: js_index_def)

lemma js_template_Some [simp, js_simps]: "js_template (Some s) = s"
  by (simp add: js_template_def)

lemma js_template_None [simp, js_simps]: "js_template None = ''undefined''"
  by (simp add: js_template_def)

lemma js_rem_one_nonneg [js_simps]:
  "0 \<le> x \<Longrightarrow> js_rem x 1 = x - of_int \<lfloor>x\<rfloor>"
  by (simp add: js_rem_def js_trunc_def)

lemma js_rem_one_bounds:
  "0 \<le> x \<Longrightarrow> 0 \<le> js_rem x 1 \<and> js_rem x 1 < 1"
  by (simp add: js_simps) linarith

lemma js_rem_one_floor_eq:
  "0 \<le> x \<Longrightarrow> x = of_int \<lfloor>x\<rfloor> + js_rem x 1"
  by (simp add: js_simps)

lemma js_round_mono:
  "x \<le> y \<Longrightarrow> js_round x \<le> js_round y"
  by (simp add: js_round_def floor_mono)

lemma js_round_bounds:
  "x - 1 / 2 < of_int (js_round x) \<and> of_int (js_round x) \<le> x + 1 / 2"
  unfolding js_round_def by linarith

lemma floor_cases4:
  assumes "(0::real) \<le> p" and "p < 4"
  shows "\<lfloor>p\<rfloor> = 0 \<or> \<lfloor>p\<rfloor> = 1 \<or> \<lfloor>p\<rfloor> = 2 \<or> \<lfloor>p\<rfloor> = 3"
proof -
  define k where "k = \<lfloor>p\<rfloor>"
  from assms have "0 \<le> k" "k < 4" by (simp_all add: k_def floor_less_iff)
  then show ?thesis unfolding k_def by presburger
qed

lemma int_cases4:
  fixes k :: int
  assumes "0 \<le> k" and "k < 4"
  shows "k = 0 \<or> k = 1 \<or> k = 2 \<or> k = 3"
  using assms by presburger

lemma abs_affine_diff:
  fixes t d a b :: real
  assumes "0 \<le> d"
  shows "\<bar>(t + d * a) - (t + d * b)\<bar> = d * \<bar>a - b\<bar>"
proof -
  have "(t + d * a) - (t + d * b) = d * (a - b)" by (simp add: algebra_simps)
  then show ?thesis using assms by (simp add: abs_mult)
qed

lemma floor_eq_stage:
  fixes p :: real and k :: int
  shows "\<lfloor>p\<rfloor> = k \<longleftrightarrow> of_int k \<le> p \<and> p < of_int k + 1"
  by (simp add: floor_eq_iff)

text \<open>The digits of \<open>String(n)\<close> for a single-digit number.\<close>

lemma digit_char_simps [simp]:
  "digit_char 0 = CHR ''0''" "digit_char 1 = CHR ''1''" "digit_char (Suc 0) = CHR ''1''"
  "digit_char 2 = CHR ''2''" "digit_char 3 = CHR ''3''" "digit_char 4 = CHR ''4''"
  "digit_char 5 = CHR ''5''" "digit_char 6 = CHR ''6''" "digit_char 7 = CHR ''7''"
  "digit_char 8 = CHR ''8''" "digit_char 9 = CHR ''9''"
  by (simp_all add: digit_char_def) code_simp+

lemma digit_char_nth:
  assumes "d < 10"
  shows "digit_char d = ''0123456789'' ! d"
proof -
  have "d \<in> {0,1,2,3,4,5,6,7,8,9}" using assms by auto
  then show ?thesis by auto
qed

lemma int_to_string_digit:
  "0 \<le> i \<Longrightarrow> i < 10 \<Longrightarrow> int_to_string i = [''0123456789'' ! nat i]"
  by (simp add: int_to_string_def nat_to_string.simps digit_char_nth)


lemma of_char_digit_char: "d < 10 \<Longrightarrow> of_char (digit_char d) = 48 + d"
  by (simp add: digit_char_def)

lemma nat_to_string_digits:
  "nat_to_string n \<noteq> [] \<and> list_all is_digit (nat_to_string n) \<and>
   foldl (\<lambda>acc c. 10 * acc + (of_char c - 48)) 0 (nat_to_string n) = n"
proof (induction n rule: nat_to_string.induct)
  case (1 n)
  show ?case
  proof (cases "n < 10")
    case True
    then show ?thesis
      by (simp add: nat_to_string.simps of_char_digit_char is_digit_def)
  next
    case False
    then have e: "nat_to_string n = nat_to_string (n div 10) @ [digit_char (n mod 10)]"
      by (subst nat_to_string.simps) simp
    have "10 * (n div 10) + n mod 10 = n" by simp
    with False 1 show ?thesis
      unfolding e by (simp add: of_char_digit_char is_digit_def)
  qed
qed

lemma parse_nat_roundtrip: "parse_nat (nat_to_string n) = Some n"
  using nat_to_string_digits [of n] by (simp add: parse_nat_def)

lemma int_to_string_nonneg: "0 \<le> i \<Longrightarrow> int_to_string i = nat_to_string (nat i)"
  by (simp add: int_to_string_def)

end
