(* ===== verification/Stages.thy ===== *)
theory Stages
  imports Prelude "HOL-Library.Sublist"
begin

text \<open>
  The stage model of \<^verbatim>\<open>src/script.js\<close>: the constant tables indexed by the stage
  number (\<open>stages\<close>, \<open>colors\<close>, \<open>getStageDescription\<close>, \<open>updateExplanation\<close>)
  and the timing constants. A lookup outside \<open>0 .. 3\<close> gives \<open>undefined\<close>
  (\<open>None\<close>), as the script's array reads and \<open>switch\<close>/\<open>if\<close> chains do.
  The stroke table of the specification (section 4.2) is stated as an abstract
  datatype \<open>stroke\<close>, and the tables of the
  code are shown to agree with it; \<open>explanation_of\<close> generates the explanation panel
  from the table and is shown equal to \<open>updateExplanation\<close>.
\<close>

subsection \<open>Timing constants\<close>

definition cycleDuration :: real where
  "cycleDuration = 8000"

definition stageDuration :: real where
  "stageDuration = cycleDuration / 4"

subsection \<open>The code's tables\<close>

definition stages :: "string list" where
  "stages = [''Admiss'' @ [a_tilde] @ ''o'', ''Compress'' @ [a_tilde] @ ''o'',
             ''Combust'' @ [a_tilde] @ ''o'', ''Exausto'']"

definition colors :: "string list" where
  "colors = [''#22c55e'', ''#3b82f6'', ''#facc15'', ''#ef4444'']"

definition getStageDescription :: "int \<Rightarrow> string option" where
  "getStageDescription stage =
     (if stage = 0 then Some ''Aspira a mistura.''
      else if stage = 1 then Some ''Comprime a mistura.''
      else if stage = 2 then Some (''Explode e gera for'' @ [c_cedil] @ ''a.'')
      else if stage = 3 then Some ''Expulsa os gases.''
      else None)"

text \<open>
  \<open>updateExplanation\<close> assigns \<open>explanation.innerHTML\<close> in one of four branches;
  the model returns the assigned markup, \<open>None\<close> when no branch is taken (the panel
  keeps its content).
\<close>

definition updateExplanation :: "int \<Rightarrow> string option" where
  "updateExplanation stage =
     (if stage = 0 then Some (
        ''<h2>Admiss'' @ [a_tilde] @ ''o</h2><p><strong>Pist'' @ [a_tilde] @ ''o:</strong> Desce do topo ao fundo.<br>'' @
        ''<strong>V'' @ [a_acute] @ ''lvulas:</strong> Admiss'' @ [a_tilde] @ ''o aberta, escape fechada.<br>'' @
        ''<strong>Virabrequim:</strong> Gira de 0'' @ [degree_sign] @ '' a 180'' @ [degree_sign] @ ''.<br>'' @
        ''<strong>O que acontece:</strong> O motor aspira a mistura de ar e combust'' @ [i_acute] @ ''vel.</p>'')
      else if stage = 1 then Some (
        ''<h2>Compress'' @ [a_tilde] @ ''o</h2><p><strong>Pist'' @ [a_tilde] @ ''o:</strong> Sobe do fundo ao topo.<br>'' @
        ''<strong>V'' @ [a_acute] @ ''lvulas:</strong> Ambas fechadas.<br>'' @
        ''<strong>Virabrequim:</strong> Gira de 180'' @ [degree_sign] @ '' a 360'' @ [degree_sign] @ ''.<br>'' @
        ''<strong>O que acontece:</strong> A mistura '' @ [e_acute] @ '' comprimida para a combust'' @ [a_tilde] @ ''o.</p>'')
      else if stage = 2 then Some (
        ''<h2>Combust'' @ [a_tilde] @ ''o</h2><p><strong>Pist'' @ [a_tilde] @ ''o:</strong> Desce do topo ao fundo.<br>'' @
        ''<strong>V'' @ [a_acute] @ ''lvulas:</strong> Ambas fechadas.<br>'' @
        ''<strong>Virabrequim:</strong> Gira de 360'' @ [degree_sign] @ '' a 540'' @ [degree_sign] @ ''.<br>'' @
        ''<strong>O que acontece:</strong> A mistura explode, gerando for'' @ [c_cedil] @ ''a.</p>'')
      else if stage = 3 then Some (
        ''<h2>Exausto</h2><p><strong>Pist'' @ [a_tilde] @ ''o:</strong> Sobe do fundo ao topo.<br>'' @
        ''<strong>V'' @ [a_acute] @ ''lvulas:</strong> Admiss'' @ [a_tilde] @ ''o fechada, escape aberta.<br>'' @
        ''<strong>Virabrequim:</strong> Gira de 540'' @ [degree_sign] @ '' a 720'' @ [degree_sign] @ ''.<br>'' @
        ''<strong>O que acontece:</strong> Os gases queimados s'' @ [a_tilde] @ ''o expelidos.</p>'')
      else None)"

subsection \<open>The stroke table of the specification\<close>

datatype stroke = Intake | Compression | Combustion | Exhaust

datatype motion = Down | Up

datatype valve = Open | Closed

definition stroke_of :: "int \<Rightarrow> stroke option" where
  "stroke_of i = js_index [Intake, Compression, Combustion, Exhaust] i"

fun piston_motion :: "stroke \<Rightarrow> motion" where
  "piston_motion Intake = Down"
| "piston_motion Compression = Up"
| "piston_motion Combustion = Down"
| "piston_motion Exhaust = Up"

fun intake_valve :: "stroke \<Rightarrow> valve" where
  "intake_valve Intake = Open"
| "intake_valve _ = Closed"

fun exhaust_valve :: "stroke \<Rightarrow> valve" where
  "exhaust_valve Exhaust = Open"
| "exhaust_valve _ = Closed"

text \<open>How the page renders the table's values: colours of the valves, words of the legend.\<close>

fun valve_color :: "valve \<Rightarrow> string" where
  "valve_color Open = ''#22c55e''"
| "valve_color Closed = ''#ef4444''"

fun valve_word :: "valve \<Rightarrow> string" where
  "valve_word Open = ''Aberta''"
| "valve_word Closed = ''Fechada''"

fun motion_word :: "motion \<Rightarrow> string" where
  "motion_word Down = ''Desce''"
| "motion_word Up = ''Sobe''"

text \<open>The crank-angle range the specification's table gives each stroke, in degrees.\<close>

fun crank_range :: "stroke \<Rightarrow> nat \<times> nat" where
  "crank_range Intake = (0, 180)"
| "crank_range Compression = (180, 360)"
| "crank_range Combustion = (360, 540)"
| "crank_range Exhaust = (540, 720)"

text \<open>The text \<open>Gira de a\<degree> a b\<degree>.\<close> of the explanation panel.\<close>

definition crank_phrase :: "nat \<times> nat \<Rightarrow> string" where
  "crank_phrase r = ''Gira de '' @ nat_to_string (fst r) @ [degree_sign] @ '' a ''
                    @ nat_to_string (snd r) @ [degree_sign] @ ''.''"

fun stroke_index :: "stroke \<Rightarrow> nat" where
  "stroke_index Intake = 0"
| "stroke_index Compression = 1"
| "stroke_index Combustion = 2"
| "stroke_index Exhaust = 3"

text \<open>
  A reference for the explanation panel generated from the table: the title is the
  stroke's entry of \<open>stages\<close>, the piston, valve and crank lines are the table's
  values in words, and the last line is the stroke's physical effect.
\<close>

fun motion_phrase :: "motion \<Rightarrow> string" where
  "motion_phrase Down = ''Desce do topo ao fundo.''"
| "motion_phrase Up = ''Sobe do fundo ao topo.''"

fun valves_phrase :: "valve \<Rightarrow> valve \<Rightarrow> string" where
  "valves_phrase Open Closed = ''Admiss'' @ [a_tilde] @ ''o aberta, escape fechada.''"
| "valves_phrase Closed Open = ''Admiss'' @ [a_tilde] @ ''o fechada, escape aberta.''"
| "valves_phrase Closed Closed = ''Ambas fechadas.''"
| "valves_phrase Open Open = ''Ambas abertas.''"

fun effect_phrase :: "stroke \<Rightarrow> string" where
  "effect_phrase Intake = ''O motor aspira a mistura de ar e combust'' @ [i_acute] @ ''vel.''"
| "effect_phrase Compression = ''A mistura '' @ [e_acute] @ '' comprimida para a combust'' @ [a_tilde] @ ''o.''"
| "effect_phrase Combustion = ''A mistura explode, gerando for'' @ [c_cedil] @ ''a.''"
| "effect_phrase Exhaust = ''Os gases queimados s'' @ [a_tilde] @ ''o expelidos.''"

definition explanation_of :: "stroke \<Rightarrow> string" where
  "explanation_of s =
     ''<h2>'' @ stages ! stroke_index s @ ''</h2><p><strong>Pist'' @ [a_tilde] @ ''o:</strong> '' @
     motion_phrase (piston_motion s) @ ''<br>'' @
     ''<strong>V'' @ [a_acute] @ ''lvulas:</strong> '' @ valves_phrase (intake_valve s) (exhaust_valve s) @ ''<br>'' @
     ''<strong>Virabrequim:</strong> '' @ crank_phrase (crank_range s) @ ''<br>'' @
     ''<strong>O que acontece:</strong> '' @ effect_phrase s @ ''</p>''"

subsection \<open>Lookups inside and outside the table\<close>

lemma stroke_of_range:
  "stroke_of i \<noteq> None \<longleftrightarrow> 0 \<le> i \<and> i < 4"
  by (auto simp: stroke_of_def js_index_def)

lemma stroke_of_simps [simp]:
  "stroke_of 0 = Some Intake" "stroke_of 1 = Some Compression"
  "stroke_of 2 = Some Combustion" "stroke_of 3 = Some Exhaust"
  by (simp_all add: stroke_of_def js_index_def)

lemma stroke_of_Some:
  "stroke_of i = Some s \<Longrightarrow>
     (i = 0 \<and> s = Intake) \<or> (i = 1 \<and> s = Compression) \<or>
     (i = 2 \<and> s = Combustion) \<or> (i = 3 \<and> s = Exhaust)"
  by (auto simp: stroke_of_def js_index_def nth_Cons' split: if_splits dest!: int_cases4)

lemma stage_tables_at [simp]:
  "js_index stages 0 = Some (''Admiss'' @ [a_tilde] @ ''o'')"
  "js_index stages 1 = Some (''Compress'' @ [a_tilde] @ ''o'')"
  "js_index stages 2 = Some (''Combust'' @ [a_tilde] @ ''o'')"
  "js_index stages 3 = Some ''Exausto''"
  "js_index colors 0 = Some ''#22c55e''" "js_index colors 1 = Some ''#3b82f6''"
  "js_index colors 2 = Some ''#facc15''" "js_index colors 3 = Some ''#ef4444''"
  by (simp_all add: js_index_def stages_def colors_def)

lemma stage_tables_outside:
  assumes "i < 0 \<or> 4 \<le> i"
  shows "js_index stages i = None" and "js_index colors i = None"
    and "getStageDescription i = None" and "updateExplanation i = None"
    and "stroke_of i = None"
  using assms
  by (auto simp: js_index_def stages_def colors_def getStageDescription_def
      updateExplanation_def stroke_of_def)

lemma stage_tables_inside:
  assumes "0 \<le> i" and "i < 4"
  shows "js_index stages i \<noteq> None" and "js_index colors i \<noteq> None"
    and "getStageDescription i \<noteq> None" and "updateExplanation i \<noteq> None"
    and "stroke_of i \<noteq> None"
  using int_cases4 [OF assms]
  by (auto simp: js_index_def stages_def colors_def getStageDescription_def
      updateExplanation_def stroke_of_def)


lemma explanation_of_stages:
  "updateExplanation 0 = Some (explanation_of Intake)"
  "updateExplanation 1 = Some (explanation_of Compression)"
  "updateExplanation 2 = Some (explanation_of Combustion)"
  "updateExplanation 3 = Some (explanation_of Exhaust)"
  by code_simp+

subsection \<open>The explanation panel against the table\<close>

text \<open>
  Claim C8: the four hand-written explanation texts are exactly the ones generated from
  the specification's stroke table: for every stage number, \<open>updateExplanation\<close>
  assigns the markup \<open>explanation_of\<close> builds from the stroke's name in \<open>stages\<close>,
  its piston motion, valve states and crank range, and its effect, and assigns nothing
  for a number that is not a stroke.
\<close>

theorem updateExplanation_from_table:
  "updateExplanation k = map_option explanation_of (stroke_of k)"
proof (cases "0 \<le> k \<and> k < 4")
  case True
  then have "k = 0 \<or> k = 1 \<or> k = 2 \<or> k = 3" by (intro int_cases4) simp_all
  then show ?thesis using explanation_of_stages by auto
next
  case False
  then have "k < 0 \<or> 4 \<le> k" by auto
  then show ?thesis using stage_tables_outside [of k] by simp
qed

end
