(* ===== verification/Layout.thy ===== *)
theory Layout
  imports Prelude
begin

text \<open>
  Geometry layout: \<open>setupCanvas\<close> (lines 12--33 of \<^verbatim>\<open>src/script.js\<close>). It reads the
  canvas's CSS width \<open>offsetWidth\<close> (a non-negative integer), derives the height from
  the fixed ratio 350/550, writes both into the canvas element's integer \<open>width\<close> and
  \<open>height\<close> attributes, and sets the twelve module-level layout variables, kept here
  as the record \<open>layout\<close>. The lemmas show the attribute values, the proportionality
  of every layout field to the canvas size, and that the piston's travel stays inside
  the cylinder.
\<close>

subsection \<open>The canvas element and the layout variables\<close>

record canvas =
  canvas_width :: nat
  canvas_height :: nat

record layout =
  cylinderX :: real
  cylinderY :: real
  cylinderWidth :: real
  cylinderHeight :: real
  pistonHeight :: real
  valveY :: real
  valveRadius :: real
  crankRadius :: real
  crankX :: real
  crankY :: real
  pistonTop :: real
  pistonBottom :: real

text \<open>
  Assigning a number to an \<open>unsigned long\<close> attribute such as \<open>canvas.height\<close>
  (Web IDL): truncate towards zero, then reduce modulo \<open>2^32\<close>.
\<close>

definition webidl_unsigned_long :: "real \<Rightarrow> nat" where
  "webidl_unsigned_long x = nat (js_trunc x mod 2 ^ 32)"

text \<open>The layout variables as a function of the canvas size (lines 21--32).\<close>

definition layout_of :: "real \<Rightarrow> real \<Rightarrow> layout" where
  "layout_of canvasWidth canvasHeight =
     (let cylinderY = canvasHeight * 0.11;
          cylinderHeight = canvasHeight * 0.71;
          pistonHeight = canvasHeight * 0.11
      in \<lparr> cylinderX = canvasWidth * 0.22,
           cylinderY = cylinderY,
           cylinderWidth = canvasWidth * 0.16,
           cylinderHeight = cylinderHeight,
           pistonHeight = pistonHeight,
           valveY = canvasHeight * 0.11,
           valveRadius = canvasWidth * 0.015,
           crankRadius = canvasWidth * 0.045,
           crankX = canvasWidth * 0.3,
           crankY = canvasHeight * 0.89,
           pistonTop = cylinderY,
           pistonBottom = cylinderY + cylinderHeight - pistonHeight \<rparr>)"

definition canvas_height_of :: "nat \<Rightarrow> real" where
  "canvas_height_of offsetWidth = real offsetWidth * (350 / 550)"

definition setupCanvas :: "nat \<Rightarrow> canvas \<times> layout" where
  "setupCanvas offsetWidth =
     (let canvasWidth = real offsetWidth;
          canvasHeight = canvas_height_of offsetWidth
      in (\<lparr> canvas_width = webidl_unsigned_long canvasWidth,
            canvas_height = webidl_unsigned_long canvasHeight \<rparr>,
          layout_of canvasWidth canvasHeight))"

subsection \<open>Scaling a layout\<close>

text \<open>Every field multiplied by one factor: the layout of a canvas \<open>c\<close> times larger.\<close>

definition scale_layout :: "real \<Rightarrow> layout \<Rightarrow> layout" where
  "scale_layout c l =
     \<lparr> cylinderX = c * cylinderX l, cylinderY = c * cylinderY l,
       cylinderWidth = c * cylinderWidth l, cylinderHeight = c * cylinderHeight l,
       pistonHeight = c * pistonHeight l, valveY = c * valveY l,
       valveRadius = c * valveRadius l, crankRadius = c * crankRadius l,
       crankX = c * crankX l, crankY = c * crankY l,
       pistonTop = c * pistonTop l, pistonBottom = c * pistonBottom l \<rparr>"

subsection \<open>Lemmas\<close>

lemma webidl_unsigned_long_nat [js_simps]:
  "webidl_unsigned_long (real n) = n mod 2 ^ 32"
proof -
  have "js_trunc (real n) = int n" by (simp add: js_trunc_def)
  then show ?thesis
    by (simp add: webidl_unsigned_long_def nat_mod_distrib)
qed

lemma webidl_unsigned_long_nonneg:
  "0 \<le> x \<Longrightarrow> webidl_unsigned_long x = nat (\<lfloor>x\<rfloor> mod 2 ^ 32)"
  by (simp add: webidl_unsigned_long_def js_trunc_def)

lemma floor_canvas_height:
  "\<lfloor>canvas_height_of w\<rfloor> = int (w * 7 div 11)"
proof -
  have h: "canvas_height_of w = real (w * 7) / real (11::nat)"
    by (simp add: canvas_height_of_def)
  show ?thesis
    unfolding h floor_divide_of_nat_eq by simp
qed

lemma layout_of_fields [simp]:
  "cylinderX (layout_of w h) = w * 0.22" "cylinderY (layout_of w h) = h * 0.11"
  "cylinderWidth (layout_of w h) = w * 0.16" "cylinderHeight (layout_of w h) = h * 0.71"
  "pistonHeight (layout_of w h) = h * 0.11" "valveY (layout_of w h) = h * 0.11"
  "valveRadius (layout_of w h) = w * 0.015" "crankRadius (layout_of w h) = w * 0.045"
  "crankX (layout_of w h) = w * 0.3" "crankY (layout_of w h) = h * 0.89"
  "pistonTop (layout_of w h) = h * 0.11"
  "pistonBottom (layout_of w h) = h * 0.11 + h * 0.71 - h * 0.11"
  by (simp_all add: layout_of_def Let_def)

lemma snd_setupCanvas [simp]:
  "snd (setupCanvas w) = layout_of (real w) (canvas_height_of w)"
  by (simp add: setupCanvas_def Let_def)

lemma canvas_height_of_nonneg [simp]: "0 \<le> canvas_height_of w"
  by (simp add: canvas_height_of_def)

subsection \<open>Properties of \<open>setupCanvas\<close>\<close>

text \<open>
  Claim C34: the canvas element gets the integer width \<open>offsetWidth\<close> and the height
  \<open>offsetWidth * 350 / 550\<close> truncated to an integer, that is
  \<open>offsetWidth * 7 div 11\<close>; a width of 550 gives a height of exactly 350 and a
  width of 1100 a height of 700.
\<close>

theorem setupCanvas_attributes:
  assumes "w < 2 ^ 32"
  shows "fst (setupCanvas w) = \<lparr> canvas_width = w, canvas_height = w * 7 div 11 \<rparr>"
proof -
  have "w * 7 div 11 < 2 ^ 32" using assms by linarith
  moreover have "webidl_unsigned_long (canvas_height_of w) = nat (int (w * 7 div 11) mod 2 ^ 32)"
    by (simp add: webidl_unsigned_long_nonneg floor_canvas_height)
  ultimately show ?thesis using assms
    by (simp add: setupCanvas_def Let_def js_simps)
qed

theorem setupCanvas_attributes_witness:
  "fst (setupCanvas 550) = \<lparr> canvas_width = 550, canvas_height = 350 \<rparr> \<and>
   fst (setupCanvas 1100) = \<lparr> canvas_width = 1100, canvas_height = 700 \<rparr>"
  using setupCanvas_attributes [of 550] setupCanvas_attributes [of 1100] by simp

text \<open>
  Claim C35: every layout variable is proportional to the canvas width: the layout of a
  canvas \<open>k\<close> times wider is the layout of the original canvas with every coordinate
  and size multiplied by \<open>k\<close>.
\<close>

theorem setupCanvas_proportional:
  "snd (setupCanvas (k * w)) = scale_layout (real k) (snd (setupCanvas w))"
  by (simp add: layout_of_def scale_layout_def canvas_height_of_def Let_def algebra_simps)

text \<open>
  The piston's travel is the inside of the cylinder: its top position is the
  cylinder's top, its bottom position plus its height is the cylinder's bottom, and the
  travel is 60 percent of the canvas height.
\<close>

lemma setupCanvas_piston_travel:
  "pistonTop (snd (setupCanvas w)) = cylinderY (snd (setupCanvas w)) \<and>
   pistonBottom (snd (setupCanvas w)) + pistonHeight (snd (setupCanvas w)) =
     cylinderY (snd (setupCanvas w)) + cylinderHeight (snd (setupCanvas w)) \<and>
   pistonBottom (snd (setupCanvas w)) - pistonTop (snd (setupCanvas w)) = 0.6 * canvas_height_of w"
  by simp

end
