(* ===== verification/Browser.thy ===== *)
theory Browser
  imports Prelude
begin

text \<open>
  The browser collaborators the script drives (specification, section 6), modelled only
  as far as the script's observable output depends on them. None of this is code of the
  repository; it is the environment the code's definitions run against.
  \<^item> \<open>canvas_op\<close>: the calls the script makes on the 2D context, in order; the scene
    renderer produces a list of them.
  \<^item> \<open>css_color\<close>: which colour strings the browser accepts. An assignment of any
    other string to \<open>fillStyle\<close>, \<open>strokeStyle\<close>, \<open>style.background\<close> or
    \<open>style.color\<close> is ignored, as HTML and CSSOM specify; the script only ever
    assigns \<open>#rrggbb\<close> values, one \<open>rgba(...)\<close> value, and the text
    \<open>undefined\<close>.
  \<^item> \<open>ctx\<close>, \<open>exec_op\<close>, \<open>paint_ops\<close>: the context's drawing state and what each
    call paints, so that a claim about colours on screen can be stated.
  \<^item> \<open>op_ok\<close>: a call the context carries out as written (the canvas specification
    ignores an unparsable colour or a non-positive line width and throws on a negative
    arc radius).
  \<^item> \<open>dom\<close>: the text surfaces the script writes (stage label, explanation panel, quiz
    result).
\<close>

subsection \<open>Calls on the 2D context\<close>

datatype canvas_op =
    ClearRect real real real real
  | SetFillStyle string
  | FillRect real real real real
  | BeginPath
  | Arc real real real real real
  | Fill
  | SetStrokeStyle string
  | SetLineWidth real
  | Stroke
  | MoveTo real real
  | LineTo real real
  | QuadraticCurveTo real real real real
  | ClosePath
  | SetFont string
  | SetTextAlign string
  | FillText string real real

subsection \<open>Colour strings\<close>

definition hex_digit :: "char \<Rightarrow> bool" where
  "hex_digit c \<longleftrightarrow> c \<in> set ''0123456789abcdefABCDEF''"

definition css_color :: "string \<Rightarrow> bool" where
  "css_color s =
     (case s of
        [] \<Rightarrow> False
      | c # ds \<Rightarrow>
          (if c = CHR ''#'' then length ds = 6 \<and> list_all hex_digit ds
           else take 5 s = ''rgba('' \<and> last s = CHR '')''))"

text \<open>Assigning a colour: kept when the browser accepts it, ignored otherwise.\<close>

definition assign_color :: "string \<Rightarrow> string \<Rightarrow> string" where
  "assign_color old new = (if css_color new then new else old)"

subsection \<open>What the context paints\<close>

datatype paint =
    Cleared real real real real
  | PaintRect string real real real real
  | PaintPath string "canvas_op list"
  | StrokePath string real "canvas_op list"
  | PaintText string string string real real

record ctx =
  fillStyle :: string
  strokeStyle :: string
  lineWidth :: real
  font :: string
  textAlign :: string
  path :: "canvas_op list"

fun exec_op :: "ctx \<Rightarrow> canvas_op \<Rightarrow> ctx \<times> paint list" where
  "exec_op c (ClearRect x y w h) = (c, [Cleared x y w h])"
| "exec_op c (SetFillStyle s) = (c\<lparr>fillStyle := assign_color (fillStyle c) s\<rparr>, [])"
| "exec_op c (FillRect x y w h) = (c, [PaintRect (fillStyle c) x y w h])"
| "exec_op c BeginPath = (c\<lparr>path := []\<rparr>, [])"
| "exec_op c Fill = (c, [PaintPath (fillStyle c) (path c)])"
| "exec_op c (SetStrokeStyle s) = (c\<lparr>strokeStyle := assign_color (strokeStyle c) s\<rparr>, [])"
| "exec_op c (SetLineWidth w) = (c\<lparr>lineWidth := w\<rparr>, [])"
| "exec_op c Stroke = (c, [StrokePath (strokeStyle c) (lineWidth c) (path c)])"
| "exec_op c (SetFont f) = (c\<lparr>font := f\<rparr>, [])"
| "exec_op c (SetTextAlign a) = (c\<lparr>textAlign := a\<rparr>, [])"
| "exec_op c (FillText t x y) = (c, [PaintText (fillStyle c) (font c) t x y])"
| "exec_op c op = (c\<lparr>path := path c @ [op]\<rparr>, [])"

text \<open>The state of a fresh 2D context (HTML: black fill and stroke, 10px sans-serif).\<close>

definition init_ctx :: ctx where
  "init_ctx = \<lparr>fillStyle = ''#000000'', strokeStyle = ''#000000'', lineWidth = 1,
               font = ''10px sans-serif'', textAlign = ''start'', path = []\<rparr>"

fun paint_ops :: "ctx \<Rightarrow> canvas_op list \<Rightarrow> ctx \<times> paint list" where
  "paint_ops c [] = (c, [])"
| "paint_ops c (op # ops) =
     (let (c1, p1) = exec_op c op; (c2, p2) = paint_ops c1 ops in (c2, p1 @ p2))"

text \<open>Observations of a list of calls or of paints: the texts drawn, the colours of the
  texts, of the filled shapes and of the stroked paths, the points a path call mentions
  (end and control points, the centre of an arc), the control points of the curves, and
  the rectangles filled.\<close>

fun texts_of :: "canvas_op list \<Rightarrow> string list" where
  "texts_of [] = []"
| "texts_of (FillText t x y # ops) = t # texts_of ops"
| "texts_of (_ # ops) = texts_of ops"

fun text_colors :: "paint list \<Rightarrow> string list" where
  "text_colors [] = []"
| "text_colors (PaintText c f t x y # ps) = c # text_colors ps"
| "text_colors (_ # ps) = text_colors ps"

fun fill_colors :: "paint list \<Rightarrow> string list" where
  "fill_colors [] = []"
| "fill_colors (PaintRect col x y w h # ps) = col # fill_colors ps"
| "fill_colors (PaintPath col pth # ps) = col # fill_colors ps"
| "fill_colors (_ # ps) = fill_colors ps"

fun stroke_colors :: "paint list \<Rightarrow> string list" where
  "stroke_colors [] = []"
| "stroke_colors (StrokePath col w pth # ps) = col # stroke_colors ps"
| "stroke_colors (_ # ps) = stroke_colors ps"

fun op_points :: "canvas_op \<Rightarrow> (real \<times> real) list" where
  "op_points (MoveTo x y) = [(x, y)]"
| "op_points (LineTo x y) = [(x, y)]"
| "op_points (QuadraticCurveTo cx cy x y) = [(cx, cy), (x, y)]"
| "op_points (Arc x y r a b) = [(x, y)]"
| "op_points _ = []"

fun control_points :: "canvas_op \<Rightarrow> (real \<times> real) list" where
  "control_points (QuadraticCurveTo cx cy x y) = [(cx, cy)]"
| "control_points _ = []"

fun fill_rects :: "canvas_op list \<Rightarrow> (real \<times> real \<times> real \<times> real) list" where
  "fill_rects [] = []"
| "fill_rects (FillRect x y w h # ops) = (x, y, w, h) # fill_rects ops"
| "fill_rects (_ # ops) = fill_rects ops"

text \<open>
  A call the context carries out as written: a colour it parses, an arc radius that is
  not negative (\<open>arc\<close> throws an \<open>IndexSizeError\<close> otherwise), a positive line
  width (any other value is ignored).
\<close>

fun op_ok :: "canvas_op \<Rightarrow> bool" where
  "op_ok (SetFillStyle s) = css_color s"
| "op_ok (SetStrokeStyle s) = css_color s"
| "op_ok (Arc x y r a b) = (0 \<le> r)"
| "op_ok (SetLineWidth w) = (0 < w)"
| "op_ok _ = True"

subsection \<open>The page's text surfaces\<close>

record dom =
  stageIndicator_text :: string
  stageIndicator_background :: string
  explanation_html :: string
  quizResult_text :: string
  quizResult_color :: string

text \<open>A page whose text surfaces are still empty, with a green stage label.\<close>

definition blank_dom :: dom where
  "blank_dom = \<lparr>stageIndicator_text = [], stageIndicator_background = ''#22c55e'',
                explanation_html = [], quizResult_text = [], quizResult_color = ''#000000''\<rparr>"

subsection \<open>Lemmas\<close>

lemma css_color_hex:
  "css_color (CHR ''#'' # ds) \<longleftrightarrow> length ds = 6 \<and> list_all hex_digit ds"
  by (simp add: css_color_def)

lemma script_colors_accepted [simp]:
  "css_color ''#22c55e''" "css_color ''#ef4444''" "css_color ''#3b82f6''"
  "css_color ''#facc15''" "css_color ''#4b5e73''" "css_color ''#d1d5db''"
  "css_color ''#1f2937''" "css_color ''rgba(255, 255, 255, 0.9)''"
  by (simp_all add: css_color_def hex_digit_def)

lemma css_color_undefined [simp]: "\<not> css_color ''undefined''"
  by (simp add: css_color_def)

lemma paint_ops_append:
  "paint_ops c (xs @ ys) =
     (let (c1, p1) = paint_ops c xs; (c2, p2) = paint_ops c1 ys in (c2, p1 @ p2))"
  by (induction xs arbitrary: c) (auto simp: Let_def split: prod.splits)

text \<open>Running the calls one at a time, and observing a concatenation of paints.\<close>

lemma paint_ops_Cons_fst_snd:
  "fst (paint_ops c (op # ops)) = fst (paint_ops (fst (exec_op c op)) ops)"
  "snd (paint_ops c (op # ops)) = snd (exec_op c op) @ snd (paint_ops (fst (exec_op c op)) ops)"
  by (simp_all add: split_beta)

lemma paint_colors_append [simp]:
  "fill_colors (xs @ ys) = fill_colors xs @ fill_colors ys"
  "stroke_colors (xs @ ys) = stroke_colors xs @ stroke_colors ys"
  "text_colors (xs @ ys) = text_colors xs @ text_colors ys"
  by (induction xs rule: fill_colors.induct) simp_all

end
