(* ===== verification/Scene.thy ===== *)
theory Scene
  imports Stages Layout Browser
begin

text \<open>
  The scene renderer: \<open>drawScene\<close> (lines 35--128 of \<^verbatim>\<open>src/script.js\<close>) and the
  rounded-rectangle path the script installs on the 2D context (lines 215--227).
  \<open>drawScene progress\<close> clears the canvas and issues the context calls of six blocks,
  in the order of the code's comments: cylinder, piston, valves, spark, crankshaft,
  legend. The model returns that list of calls (\<open>drawScene_ops\<close>) and the updated
  page text (\<open>stage_dom\<close>: stage label, its colour, explanation panel).
  The stage is \<open>Math.floor(progress)\<close> and the fraction \<open>progress % 1\<close>; every
  table read with a stage outside \<open>0 .. 3\<close> gives \<open>undefined\<close>, which the blocks
  below carry as the script does: the \<open>switch\<close> leaves \<open>pistonY\<close> undefined, so
  \<open>fillRect\<close> receives \<open>NaN\<close> and, as the canvas specification prescribes,
  paints nothing; a template literal prints the word \<open>undefined\<close>; an \<open>undefined\<close>
  colour is ignored by the context.
  The lemmas: the closed form of the piston position (\<open>tri\<close>) and, from it,
  continuity, bounds and direction; the refinement of the stroke table by valve colours
  and legend words; the spark's window and placement; the crank angle, its printed
  value and its phase against the piston; the page update; the legend's colours; the
  rounded rectangle; the fixed-pixel offsets.
\<close>

subsection \<open>Stage and fraction\<close>

definition currentStage :: "real \<Rightarrow> int" where
  "currentStage progress = \<lfloor>progress\<rfloor>"

definition stageProgress :: "real \<Rightarrow> real" where
  "stageProgress progress = js_rem progress 1"

subsection \<open>The blocks of \<open>drawScene\<close>\<close>

text \<open>Lines 41--43: the cylinder.\<close>

definition cylinder_ops :: "layout \<Rightarrow> canvas_op list" where
  "cylinder_ops l =
     [SetFillStyle ''#d1d5db'', FillRect (cylinderX l) (cylinderY l) (cylinderWidth l) (cylinderHeight l)]"

text \<open>Lines 46--60: the piston's vertical position, by stage.\<close>

definition pistonY :: "layout \<Rightarrow> int \<Rightarrow> real \<Rightarrow> real option" where
  "pistonY l stage fraction =
     (if stage = 0 then Some (pistonTop l + (pistonBottom l - pistonTop l) * fraction)
      else if stage = 1 then Some (pistonBottom l - (pistonBottom l - pistonTop l) * fraction)
      else if stage = 2 then Some (pistonTop l + (pistonBottom l - pistonTop l) * fraction)
      else if stage = 3 then Some (pistonBottom l - (pistonBottom l - pistonTop l) * fraction)
      else None)"

text \<open>Lines 61--62: the piston; a \<open>NaN\<close> coordinate makes \<open>fillRect\<close> paint nothing.\<close>

definition piston_ops :: "layout \<Rightarrow> real option \<Rightarrow> canvas_op list" where
  "piston_ops l py =
     SetFillStyle ''#4b5e73'' #
     (case py of
        Some y \<Rightarrow> [FillRect (cylinderX l + 8) y (cylinderWidth l - 16) (pistonHeight l)]
      | None \<Rightarrow> [])"

text \<open>Lines 64--72: the valves, green when open, red when closed.\<close>

definition intake_arc :: "layout \<Rightarrow> canvas_op" where
  "intake_arc l = Arc (cylinderX l + 25) (valveY l) (valveRadius l) 0 (pi * 2)"

definition exhaust_arc :: "layout \<Rightarrow> canvas_op" where
  "exhaust_arc l = Arc (cylinderX l + 65) (valveY l) (valveRadius l) 0 (pi * 2)"

definition valve_ops :: "layout \<Rightarrow> int \<Rightarrow> canvas_op list" where
  "valve_ops l stage =
     [SetFillStyle (if stage = 0 then ''#22c55e'' else ''#ef4444''),
      BeginPath, intake_arc l, Fill,
      SetFillStyle (if stage = 3 then ''#22c55e'' else ''#ef4444''),
      BeginPath, exhaust_arc l, Fill]"

text \<open>
  Lines 74--80: the spark, in the first half of the combustion stage, just above the
  piston (in that stage \<open>pistonY\<close> is always defined).
\<close>

definition spark_ops :: "layout \<Rightarrow> int \<Rightarrow> real \<Rightarrow> real option \<Rightarrow> canvas_op list" where
  "spark_ops l stage fraction py =
     (case py of
        Some y \<Rightarrow>
          (if stage = 2 \<and> fraction < 0.5
           then [SetFillStyle ''#facc15'', BeginPath,
                 Arc (cylinderX l + cylinderWidth l / 2) (y - 8) 4 0 (pi * 2), Fill]
           else [])
      | None \<Rightarrow> [])"

text \<open>Lines 82--92: the crankshaft, a circle and a radius at the crank angle.\<close>

definition crankAngle :: "real \<Rightarrow> real" where
  "crankAngle progress = (progress / 4) * (pi * 2)"

definition crank_ops :: "layout \<Rightarrow> real \<Rightarrow> canvas_op list" where
  "crank_ops l progress =
     (let angle = crankAngle progress
      in [SetStrokeStyle ''#1f2937'', SetLineWidth 2,
          BeginPath, Arc (crankX l) (crankY l) (crankRadius l) 0 (pi * 2), Stroke,
          BeginPath, MoveTo (crankX l) (crankY l),
          LineTo (crankX l + crankRadius l * cos angle) (crankY l + crankRadius l * sin angle),
          Stroke])"

text \<open>Lines 215--227: the rounded rectangle the script installs as \<open>ctx.roundRect\<close>.\<close>

definition roundRect :: "real \<Rightarrow> real \<Rightarrow> real \<Rightarrow> real \<Rightarrow> real \<Rightarrow> canvas_op list" where
  "roundRect x y width height radius =
     [BeginPath,
      MoveTo (x + radius) y,
      LineTo (x + width - radius) y,
      QuadraticCurveTo (x + width) y (x + width) (y + radius),
      LineTo (x + width) (y + height - radius),
      QuadraticCurveTo (x + width) (y + height) (x + width - radius) (y + height),
      LineTo (x + radius) (y + height),
      QuadraticCurveTo x (y + height) x (y + height - radius),
      LineTo x (y + radius),
      QuadraticCurveTo x y (x + radius) y,
      ClosePath]"

text \<open>Line 119: the crank angle the legend prints, in whole degrees.\<close>

definition legend_angle :: "real \<Rightarrow> int" where
  "legend_angle progress = js_round ((progress / 4) * 360)"

text \<open>Lines 94--121: the legend panel and its five lines of text.\<close>

definition legend_ops :: "real \<Rightarrow> int \<Rightarrow> canvas_op list" where
  "legend_ops progress stage =
     (let currentColor = js_template (js_index colors stage);
          yPos = 35;
          lineHeight = 20
      in [SetFillStyle ''rgba(255, 255, 255, 0.9)'', BeginPath] @
         roundRect 250 20 270 130 8 @
         [Fill, SetStrokeStyle currentColor, SetLineWidth 1.5, Stroke,
          SetFillStyle currentColor, SetFont ''bold 12px Roboto'', SetTextAlign ''left'',
          FillText (''Pist'' @ [a_tilde] @ ''o: '' @
                    (if stage = 0 \<or> stage = 2 then ''Desce'' else ''Sobe'')) 260 yPos,
          FillText (''Admiss'' @ [a_tilde] @ ''o: '' @
                    (if stage = 0 then ''Aberta'' else ''Fechada'')) 260 (yPos + lineHeight),
          FillText (''Escape: '' @ (if stage = 3 then ''Aberta'' else ''Fechada''))
                   260 (yPos + 2 * lineHeight),
          FillText (''Virabrequim: '' @ int_to_string (legend_angle progress) @ [degree_sign])
                   260 (yPos + 3 * lineHeight),
          FillText (js_template (getStageDescription stage)) 260 (yPos + 4 * lineHeight)])"

text \<open>Lines 123--127: the stage label, its background colour and the explanation panel.\<close>

definition stage_dom :: "int \<Rightarrow> dom \<Rightarrow> dom" where
  "stage_dom stage d =
     (let currentColor = js_template (js_index colors stage)
      in d\<lparr>stageIndicator_text := ''Etapa: '' @ js_template (js_index stages stage),
           stageIndicator_background := assign_color (stageIndicator_background d) currentColor,
           explanation_html := (case updateExplanation stage of
                                  Some html \<Rightarrow> html
                                | None \<Rightarrow> explanation_html d)\<rparr>)"

subsection \<open>\<open>drawScene\<close>\<close>

definition drawScene_ops :: "layout \<Rightarrow> canvas \<Rightarrow> real \<Rightarrow> canvas_op list" where
  "drawScene_ops l c progress =
     (let stage = currentStage progress;
          fraction = stageProgress progress;
          py = pistonY l stage fraction
      in ClearRect 0 0 (real (canvas_width c)) (real (canvas_height c)) #
         cylinder_ops l @ piston_ops l py @ valve_ops l stage @
         spark_ops l stage fraction py @ crank_ops l progress @
         legend_ops progress stage)"

definition drawScene :: "layout \<Rightarrow> canvas \<Rightarrow> real \<Rightarrow> dom \<Rightarrow> canvas_op list \<times> dom" where
  "drawScene l c progress d = (drawScene_ops l c progress, stage_dom (currentStage progress) d)"

text \<open>The piston position the scene draws at a given progress.\<close>

definition piston_at :: "layout \<Rightarrow> real \<Rightarrow> real option" where
  "piston_at l progress = pistonY l (currentStage progress) (stageProgress progress)"

text \<open>
  The piston's height as a fraction of its travel: a triangle wave, 0 at progress 0, 2 and
  4 (top), 1 at progress 1 and 3 (bottom); its distance to the nearest even integer.
\<close>

definition tri :: "real \<Rightarrow> real" where
  "tri p = min \<bar>p\<bar> (min \<bar>p - 2\<bar> \<bar>p - 4\<bar>)"

subsection \<open>Stage, fraction and piston position\<close>

lemma stage_fraction_nonneg [js_simps]:
  "0 \<le> p \<Longrightarrow> currentStage p = \<lfloor>p\<rfloor> \<and> stageProgress p = p - of_int \<lfloor>p\<rfloor>"
  by (simp add: currentStage_def stageProgress_def js_simps)

lemma piston_at_floor:
  "0 \<le> p \<Longrightarrow> piston_at l p = pistonY l \<lfloor>p\<rfloor> (p - of_int \<lfloor>p\<rfloor>)"
  by (simp add: piston_at_def js_simps)

lemma piston_at_closed_form:
  assumes "0 \<le> p" and "p < 4"
  shows "piston_at l p = Some (pistonTop l + (pistonBottom l - pistonTop l) * tri p)"
proof -
  have c: "\<lfloor>p\<rfloor> = 0 \<or> \<lfloor>p\<rfloor> = 1 \<or> \<lfloor>p\<rfloor> = 2 \<or> \<lfloor>p\<rfloor> = 3"
    using floor_cases4 assms .
  have e: "piston_at l p = pistonY l \<lfloor>p\<rfloor> (p - of_int \<lfloor>p\<rfloor>)"
    using assms(1) by (rule piston_at_floor)
  from c show ?thesis
  proof (elim disjE)
    assume h: "\<lfloor>p\<rfloor> = 0"
    then have t: "tri p = p" using assms by (simp add: tri_def floor_eq_iff)
    show ?thesis unfolding e t using h by (simp add: pistonY_def algebra_simps)
  next
    assume h: "\<lfloor>p\<rfloor> = 1"
    then have t: "tri p = 2 - p" by (simp add: tri_def floor_eq_iff)
    show ?thesis unfolding e t using h by (simp add: pistonY_def algebra_simps)
  next
    assume h: "\<lfloor>p\<rfloor> = 2"
    then have t: "tri p = p - 2" by (simp add: tri_def floor_eq_iff)
    show ?thesis unfolding e t using h by (simp add: pistonY_def algebra_simps)
  next
    assume h: "\<lfloor>p\<rfloor> = 3"
    then have t: "tri p = 4 - p" using assms by (simp add: tri_def floor_eq_iff)
    show ?thesis unfolding e t using h by (simp add: pistonY_def algebra_simps)
  qed
qed

lemma tri_lipschitz: "\<bar>tri p - tri q\<bar> \<le> \<bar>p - q\<bar>"
  unfolding tri_def by (simp add: min_def abs_if split: if_splits)

lemma tri_circular:
  assumes "0 \<le> p" "p < 4" "0 \<le> q" "q < 4"
  shows "\<bar>tri p - tri q\<bar> \<le> 4 - \<bar>p - q\<bar>"
  using assms unfolding tri_def by (simp add: min_def abs_if split: if_splits)

lemma tri_bounds: "0 \<le> p \<Longrightarrow> p < 4 \<Longrightarrow> 0 \<le> tri p \<and> tri p \<le> 1"
  unfolding tri_def by (simp add: min_def abs_if split: if_splits)

lemma piston_travel_nonneg: "pistonTop (snd (setupCanvas w)) \<le> pistonBottom (snd (setupCanvas w))"
  by simp

lemma piston_at_defined:
  "0 \<le> p \<Longrightarrow> p < 4 \<Longrightarrow> piston_at l p \<noteq> None"
  by (simp add: piston_at_closed_form)

subsection \<open>The stage tables are read inside their bounds\<close>

text \<open>
  Claim C4: while the progress is in \<open>[0, 4)\<close>, the stage is one of 0, 1, 2, 3 and every
  lookup \<open>drawScene\<close> makes with it is defined: the piston position, the stage colour,
  the stage name, the legend description and the explanation markup.
\<close>

theorem drawScene_lookups_defined:
  assumes "0 \<le> p" and "p < 4"
  shows "currentStage p \<in> {0, 1, 2, 3} \<and> piston_at l p \<noteq> None \<and>
         js_index colors (currentStage p) \<noteq> None \<and> js_index stages (currentStage p) \<noteq> None \<and>
         getStageDescription (currentStage p) \<noteq> None \<and> updateExplanation (currentStage p) \<noteq> None"
proof -
  have "0 \<le> currentStage p" "currentStage p < 4"
    using assms by (simp_all add: currentStage_def floor_less_iff)
  then show ?thesis
    using assms int_cases4 stage_tables_inside piston_at_defined by blast
qed

theorem drawScene_lookups_defined_witness:
  "currentStage (39 / 10) \<in> {0, 1, 2, 3} \<and> piston_at (snd (setupCanvas 550)) (39 / 10) \<noteq> None \<and>
   js_index colors (currentStage (39 / 10)) \<noteq> None \<and> js_index stages (currentStage (39 / 10)) \<noteq> None \<and>
   getStageDescription (currentStage (39 / 10)) \<noteq> None \<and> updateExplanation (currentStage (39 / 10)) \<noteq> None"
  by (rule drawScene_lookups_defined) simp_all

subsection \<open>A progress outside \<open>[0, 4)\<close>\<close>

text \<open>Applying the page update of a stage twice is applying it once.\<close>

lemma stage_dom_idem: "stage_dom s (stage_dom s d) = stage_dom s d"
  by (simp add: stage_dom_def assign_color_def Let_def split: option.splits)

text \<open>The page update of a stage 0..3 overwrites everything an earlier one wrote.\<close>

lemma stage_dom_absorb:
  assumes "0 \<le> s" and "s < 4"
  shows "stage_dom s (stage_dom s' d) = stage_dom s d"
  using stage_tables_inside [OF assms] int_cases4 [OF assms]
  by (auto simp: stage_dom_def assign_color_def Let_def js_index_def colors_def split: option.splits)

lemma roundRect_ok: "list_all op_ok (roundRect x y w h r)"
  by (simp add: roundRect_def)

lemma currentStage_outside:
  "p < 0 \<or> 4 \<le> p \<Longrightarrow> currentStage p < 0 \<or> 4 \<le> currentStage p"
  by (auto simp: currentStage_def le_floor_iff)

lemma outside_no_piston_undefined_label:
  assumes "p < 0 \<or> 4 \<le> p"
  shows "piston_at l p = None \<and>
         stageIndicator_text (stage_dom (currentStage p) d) = ''Etapa: undefined''"
proof -
  have out: "currentStage p < 0 \<or> 4 \<le> currentStage p"
    using assms by (rule currentStage_outside)
  then show ?thesis
    using stage_tables_outside [OF out]
    by (auto simp: piston_at_def pistonY_def stage_dom_def Let_def)
qed

text \<open>
  Claim C28: with a progress outside \<open>[0, 4)\<close> the scene is drawn without a piston,
  the stage label reads \<open>Etapa: undefined\<close>, its colour and the explanation panel keep
  their previous content, and the legend's last line is the word \<open>undefined\<close>.
\<close>

theorem drawScene_out_of_range:
  assumes "p < 0 \<or> 4 \<le> p"
  shows "piston_at l p = None \<and>
         piston_ops l (piston_at l p) = [SetFillStyle ''#4b5e73''] \<and>
         stageIndicator_text (snd (drawScene l c p d)) = ''Etapa: undefined'' \<and>
         stageIndicator_background (snd (drawScene l c p d)) = stageIndicator_background d \<and>
         explanation_html (snd (drawScene l c p d)) = explanation_html d \<and>
         last (texts_of (legend_ops p (currentStage p))) = ''undefined''"
proof -
  have out: "currentStage p < 0 \<or> 4 \<le> currentStage p"
    using assms by (rule currentStage_outside)
  then have n: "pistonY l (currentStage p) (stageProgress p) = None"
    by (auto simp: pistonY_def)
  note tabs = stage_tables_outside [OF out]
  show ?thesis
    using n tabs
    by (simp add: piston_at_def piston_ops_def drawScene_def stage_dom_def assign_color_def
        legend_ops_def roundRect_def Let_def)
qed

theorem drawScene_out_of_range_witness:
  "piston_at (snd (setupCanvas 550)) 5 = None \<and>
   piston_ops (snd (setupCanvas 550)) (piston_at (snd (setupCanvas 550)) 5) = [SetFillStyle ''#4b5e73''] \<and>
   stageIndicator_text (snd (drawScene (snd (setupCanvas 550)) (fst (setupCanvas 550)) 5 blank_dom))
     = ''Etapa: undefined'' \<and>
   stageIndicator_background (snd (drawScene (snd (setupCanvas 550)) (fst (setupCanvas 550)) 5 blank_dom))
     = stageIndicator_background blank_dom \<and>
   explanation_html (snd (drawScene (snd (setupCanvas 550)) (fst (setupCanvas 550)) 5 blank_dom))
     = explanation_html blank_dom \<and>
   last (texts_of (legend_ops 5 (currentStage 5))) = ''undefined''"
  by (rule drawScene_out_of_range) simp

subsection \<open>The piston's motion\<close>

text \<open>
  Claim C14: the piston never jumps. For two progress values in \<open>[0, 4)\<close>, the piston
  positions differ by at most the travel times their distance on the cycle (the shorter
  way round, so the wrap from 4 back to 0 is included): the position is continuous at
  every stage boundary.
\<close>

theorem piston_continuous:
  assumes "0 \<le> p" "p < 4" "0 \<le> q" "q < 4"
  shows "\<exists>yp yq. piston_at (snd (setupCanvas w)) p = Some yp \<and>
                 piston_at (snd (setupCanvas w)) q = Some yq \<and>
                 \<bar>yp - yq\<bar> \<le> 0.6 * canvas_height_of w * min \<bar>p - q\<bar> (4 - \<bar>p - q\<bar>)"
proof -
  let ?l = "snd (setupCanvas w)"
  let ?D = "pistonBottom ?l - pistonTop ?l"
  have D: "?D = 0.6 * canvas_height_of w" "0 \<le> ?D" by simp_all
  have t: "\<bar>tri p - tri q\<bar> \<le> min \<bar>p - q\<bar> (4 - \<bar>p - q\<bar>)"
    using tri_lipschitz tri_circular [OF assms] by simp
  have "\<bar>(pistonTop ?l + ?D * tri p) - (pistonTop ?l + ?D * tri q)\<bar> = ?D * \<bar>tri p - tri q\<bar>"
    using D(2) by (rule abs_affine_diff)
  also have "\<dots> \<le> ?D * min \<bar>p - q\<bar> (4 - \<bar>p - q\<bar>)"
    using t D(2) by (rule mult_left_mono)
  finally show ?thesis
    using piston_at_closed_form [OF assms(1,2)] piston_at_closed_form [OF assms(3,4)] D(1) by simp
qed

theorem piston_continuous_witness:
  "\<exists>yp yq. piston_at (snd (setupCanvas 550)) (39 / 10) = Some yp \<and>
           piston_at (snd (setupCanvas 550)) (1 / 10) = Some yq \<and>
           \<bar>yp - yq\<bar> \<le> 0.6 * canvas_height_of 550 * min \<bar>39 / 10 - 1 / 10\<bar> (4 - \<bar>39 / 10 - 1 / 10\<bar>)"
  by (rule piston_continuous) simp_all

text \<open>
  Claim C7: the piston stays inside the cylinder: for every progress in \<open>[0, 4)\<close> its
  top edge is at or below the cylinder's top and its bottom edge at or above the
  cylinder's bottom.
\<close>

theorem piston_inside_cylinder:
  assumes "0 \<le> p" and "p < 4"
  shows "\<exists>y. piston_at (snd (setupCanvas w)) p = Some y \<and>
             cylinderY (snd (setupCanvas w)) \<le> y \<and>
             y + pistonHeight (snd (setupCanvas w)) \<le>
               cylinderY (snd (setupCanvas w)) + cylinderHeight (snd (setupCanvas w))"
proof -
  let ?l = "snd (setupCanvas w)"
  let ?D = "pistonBottom ?l - pistonTop ?l"
  have D: "0 \<le> ?D" by simp
  have t: "0 \<le> tri p" "tri p \<le> 1" using tri_bounds [OF assms] by simp_all
  have "0 \<le> ?D * tri p" using D t(1) by simp
  moreover have "?D * tri p \<le> ?D" using D t(2) by (simp add: mult_left_le)
  ultimately show ?thesis
    using piston_at_closed_form [OF assms] setupCanvas_piston_travel [of w] by simp
qed

theorem piston_inside_cylinder_witness:
  "\<exists>y. piston_at (snd (setupCanvas 550)) (9 / 4) = Some y \<and>
       cylinderY (snd (setupCanvas 550)) \<le> y \<and>
       y + pistonHeight (snd (setupCanvas 550)) \<le>
         cylinderY (snd (setupCanvas 550)) + cylinderHeight (snd (setupCanvas 550))"
  by (rule piston_inside_cylinder) simp_all

subsection \<open>The spark\<close>

text \<open>
  Claim C15: the spark is drawn exactly in the first half of the combustion stage: for a
  progress in \<open>[0, 4)\<close>, the spark block issues calls if and only if the progress lies
  in \<open>[2, 2.5)\<close> (shown at 2.49, not at 2.5).
\<close>

theorem spark_shown_iff:
  assumes "0 \<le> p" and "p < 4"
  shows "spark_ops l (currentStage p) (stageProgress p) (piston_at l p) \<noteq> [] \<longleftrightarrow>
         2 \<le> p \<and> p < 5 / 2"
proof -
  obtain y where y: "piston_at l p = Some y"
    using piston_at_closed_form [OF assms] by blast
  have sp: "currentStage p = \<lfloor>p\<rfloor> \<and> stageProgress p = p - of_int \<lfloor>p\<rfloor>"
    using assms(1) by (rule stage_fraction_nonneg)
  have "(\<lfloor>p\<rfloor> = 2 \<and> p - of_int \<lfloor>p\<rfloor> < 0.5) \<longleftrightarrow> 2 \<le> p \<and> p < 5 / 2"
  proof (cases "\<lfloor>p\<rfloor> = 2")
    case True
    moreover have "2 \<le> p" "p < 3" using True by (simp_all add: floor_eq_iff)
    ultimately show ?thesis by simp
  next
    case False
    then have "\<not> (2 \<le> p \<and> p < 3)" by (simp add: floor_eq_iff)
    with False show ?thesis by auto
  qed
  then show ?thesis using y sp by (simp add: spark_ops_def)
qed

theorem spark_shown_iff_witness:
  "(spark_ops (snd (setupCanvas 550)) (currentStage (249 / 100)) (stageProgress (249 / 100))
      (piston_at (snd (setupCanvas 550)) (249 / 100)) \<noteq> [] \<longleftrightarrow>
    2 \<le> (249 / 100 :: real) \<and> (249 / 100 :: real) < 5 / 2) \<and>
   (spark_ops (snd (setupCanvas 550)) (currentStage (5 / 2)) (stageProgress (5 / 2))
      (piston_at (snd (setupCanvas 550)) (5 / 2)) \<noteq> [] \<longleftrightarrow>
    2 \<le> (5 / 2 :: real) \<and> (5 / 2 :: real) < 5 / 2)"
  using spark_shown_iff [of "249 / 100" "snd (setupCanvas 550)"]
        spark_shown_iff [of "5 / 2" "snd (setupCanvas 550)"]
  by simp

text \<open>
  Claim C24: the spark is drawn just above the piston: while it is shown, it is a disc of
  radius 4 centred on the cylinder's axis 8 pixels above the piston's top, so its top
  edge is 12 pixels above the piston. It lies below the cylinder's top only once the
  piston has descended 12 pixels; before that it is drawn over the cylinder's top edge
  and the valves.
\<close>

theorem spark_above_piston:
  assumes "2 \<le> p" and "p < 5 / 2"
  shows "\<exists>y. piston_at l p = Some y \<and>
             spark_ops l (currentStage p) (stageProgress p) (piston_at l p) =
               [SetFillStyle ''#facc15'', BeginPath,
                Arc (cylinderX l + cylinderWidth l / 2) (y - 8) 4 0 (pi * 2), Fill] \<and>
             (pistonTop l \<le> y - 12 \<longleftrightarrow> 12 \<le> (pistonBottom l - pistonTop l) * (p - 2))"
proof -
  have f: "\<lfloor>p\<rfloor> = 2" using assms by (simp add: floor_eq_iff)
  have sp: "currentStage p = \<lfloor>p\<rfloor> \<and> stageProgress p = p - of_int \<lfloor>p\<rfloor>"
    using assms(1) by (intro stage_fraction_nonneg) simp
  then have s: "currentStage p = 2" "stageProgress p = p - 2" using f by simp_all
  let ?y = "pistonTop l + (pistonBottom l - pistonTop l) * (p - 2)"
  have y: "piston_at l p = Some ?y" using s by (simp add: piston_at_def pistonY_def)
  moreover have "p - 2 < 0.5" using assms(2) by simp
  ultimately show ?thesis using s by (simp add: spark_ops_def)
qed

theorem spark_above_piston_witness:
  "\<exists>y. piston_at (snd (setupCanvas 550)) (201 / 100) = Some y \<and>
       spark_ops (snd (setupCanvas 550)) (currentStage (201 / 100)) (stageProgress (201 / 100))
         (piston_at (snd (setupCanvas 550)) (201 / 100)) =
         [SetFillStyle ''#facc15'', BeginPath,
          Arc (cylinderX (snd (setupCanvas 550)) + cylinderWidth (snd (setupCanvas 550)) / 2) (y - 8) 4 0 (pi * 2),
          Fill] \<and>
       (pistonTop (snd (setupCanvas 550)) \<le> y - 12 \<longleftrightarrow>
        12 \<le> (pistonBottom (snd (setupCanvas 550)) - pistonTop (snd (setupCanvas 550))) * (201 / 100 - 2))"
  by (rule spark_above_piston) simp_all

subsection \<open>The code's stage conditions implement the specification's stroke table\<close>

text \<open>
  Claim C5: for every stage of the table, the code's per-stage conditions agree with the
  specification's stroke table (section 4.2): each valve is painted green when the table
  says it is open and red when closed, and the legend's first three lines print the
  table's piston motion and valve states.
\<close>

theorem stroke_table_refinement:
  assumes "stroke_of stage = Some s"
  shows "snd (paint_ops c (valve_ops l stage)) =
           [PaintPath (valve_color (intake_valve s)) [intake_arc l],
            PaintPath (valve_color (exhaust_valve s)) [exhaust_arc l]] \<and>
         take 3 (texts_of (legend_ops p stage)) =
           [''Pist'' @ [a_tilde] @ ''o: '' @ motion_word (piston_motion s),
            ''Admiss'' @ [a_tilde] @ ''o: '' @ valve_word (intake_valve s),
            ''Escape: '' @ valve_word (exhaust_valve s)]"
  using stroke_of_Some [OF assms]
  by (auto simp: valve_ops_def assign_color_def legend_ops_def roundRect_def Let_def
      intake_arc_def exhaust_arc_def)

theorem stroke_table_refinement_witness:
  "snd (paint_ops init_ctx (valve_ops (snd (setupCanvas 550)) 3)) =
     [PaintPath (valve_color (intake_valve Exhaust)) [intake_arc (snd (setupCanvas 550))],
      PaintPath (valve_color (exhaust_valve Exhaust)) [exhaust_arc (snd (setupCanvas 550))]] \<and>
   take 3 (texts_of (legend_ops (7 / 2) 3)) =
     [''Pist'' @ [a_tilde] @ ''o: '' @ motion_word (piston_motion Exhaust),
      ''Admiss'' @ [a_tilde] @ ''o: '' @ valve_word (intake_valve Exhaust),
      ''Escape: '' @ valve_word (exhaust_valve Exhaust)]"
  by (rule stroke_table_refinement) simp

text \<open>
  Claim C6: within a stage the piston moves the way the table says: on a canvas of
  positive width, between two progress values of the same stage its vertical coordinate
  (which grows downwards on a canvas) increases exactly in the strokes the table marks
  as descending, and decreases exactly in the ascending ones.
\<close>

theorem piston_direction:
  assumes "0 < w" and "0 \<le> p" and "p < q" and "\<lfloor>q\<rfloor> = \<lfloor>p\<rfloor>"
    and "stroke_of \<lfloor>p\<rfloor> = Some s"
  shows "\<exists>yp yq. piston_at (snd (setupCanvas w)) p = Some yp \<and>
                 piston_at (snd (setupCanvas w)) q = Some yq \<and>
                 (yp < yq \<longleftrightarrow> piston_motion s = Down) \<and> (yq < yp \<longleftrightarrow> piston_motion s = Up)"
proof -
  let ?l = "snd (setupCanvas w)"
  define T where "T = pistonTop ?l"
  define B where "B = pistonBottom ?l"
  define fp where "fp = p - of_int \<lfloor>p\<rfloor>"
  define fq where "fq = q - of_int \<lfloor>p\<rfloor>"
  have D: "0 < B - T" using assms(1) by (simp add: T_def B_def canvas_height_of_def)
  have "fp < fq" using assms(3) by (simp add: fp_def fq_def)
  then have lt: "(B - T) * fp < (B - T) * fq" using D by (rule mult_strict_left_mono)
  have ep: "piston_at ?l p = pistonY ?l \<lfloor>p\<rfloor> fp"
    using assms(2) unfolding fp_def by (rule piston_at_floor)
  have eq: "piston_at ?l q = pistonY ?l \<lfloor>p\<rfloor> fq"
    using piston_at_floor [of q ?l] assms(2,3,4) by (simp add: fq_def)
  from stroke_of_Some [OF assms(5)]
  consider (down) "piston_motion s = Down" "\<lfloor>p\<rfloor> = 0 \<or> \<lfloor>p\<rfloor> = 2"
    | (up) "piston_motion s = Up" "\<lfloor>p\<rfloor> = 1 \<or> \<lfloor>p\<rfloor> = 3"
    by auto
  then show ?thesis
  proof cases
    case down
    note m = down(1) and k = down(2)
    have "piston_at ?l p = Some (T + (B - T) * fp) \<and> piston_at ?l q = Some (T + (B - T) * fq)"
      unfolding ep eq pistonY_def T_def B_def using k by auto
    with lt m show ?thesis by auto
  next
    case up
    note m = up(1) and k = up(2)
    have "piston_at ?l p = Some (B - (B - T) * fp) \<and> piston_at ?l q = Some (B - (B - T) * fq)"
      unfolding ep eq pistonY_def T_def B_def using k by auto
    with lt m show ?thesis by auto
  qed
qed

theorem piston_direction_witness:
  "\<exists>yp yq. piston_at (snd (setupCanvas 550)) (21 / 10) = Some yp \<and>
           piston_at (snd (setupCanvas 550)) (23 / 10) = Some yq \<and>
           (yp < yq \<longleftrightarrow> piston_motion Combustion = Down) \<and>
           (yq < yp \<longleftrightarrow> piston_motion Combustion = Up)"
proof (rule piston_direction)
  show "stroke_of \<lfloor>21 / 10 :: real\<rfloor> = Some Combustion"
    by (simp add: floor_eq_iff)
qed (simp_all add: floor_eq_iff)

subsection \<open>The legend's colours\<close>

text \<open>
  Claim C33: the legend panel is filled with \<open>rgba(255, 255, 255, 0.9)\<close>, and its five
  lines of text are painted in the stage's colour when the stage is one of 0..3; for any
  other stage the \<open>undefined\<close> colour is ignored and the text is painted in the
  panel's own fill colour, that is invisibly.
\<close>

theorem legend_text_color:
  "(\<exists>panel. PaintPath ''rgba(255, 255, 255, 0.9)'' panel \<in> set (snd (paint_ops c (legend_ops p stage)))) \<and>
   text_colors (snd (paint_ops c (legend_ops p stage))) =
     replicate 5 (case js_index colors stage of
                    Some col \<Rightarrow> col
                  | None \<Rightarrow> ''rgba(255, 255, 255, 0.9)'')"
proof (cases "js_index colors stage")
  case None
  then show ?thesis
    by (simp add: legend_ops_def roundRect_def Let_def assign_color_def numeral_eq_Suc)
next
  case (Some col)
  then have "col \<in> set colors" by (auto simp: js_index_def split: if_splits)
  then have "css_color col" by (auto simp: colors_def)
  with Some show ?thesis
    by (simp add: legend_ops_def roundRect_def Let_def assign_color_def numeral_eq_Suc)
qed

subsection \<open>The crank angle\<close>

text \<open>
  Claim C29: the crank angle grows with the progress: the angle of the drawn crank radius
  is strictly increasing, and the whole number of degrees the legend prints never
  decreases.
\<close>

theorem crank_angle_monotone:
  assumes "p \<le> q"
  shows "legend_angle p \<le> legend_angle q \<and> (p < q \<longrightarrow> crankAngle p < crankAngle q)"
proof -
  have "p / 4 * 360 \<le> q / 4 * 360" using assms by simp
  then have "legend_angle p \<le> legend_angle q"
    unfolding legend_angle_def by (rule js_round_mono)
  moreover have "p < q \<longrightarrow> crankAngle p < crankAngle q"
    by (simp add: crankAngle_def divide_strict_right_mono)
  ultimately show ?thesis by simp
qed

theorem crank_angle_monotone_witness:
  "legend_angle 1 \<le> legend_angle 2 \<and> crankAngle 1 < crankAngle 2"
  using crank_angle_monotone [of 1 2] by simp

text \<open>The printed angle is not strictly increasing: it rounds to whole degrees.\<close>

lemma legend_angle_not_strict: "legend_angle 0 = legend_angle (1 / 1000)"
  by (simp add: legend_angle_def js_round_def)

lemma explanation_crank_phrase:
  assumes "stroke_of k = Some s"
  shows "\<exists>html. updateExplanation k = Some html \<and> sublist (crank_phrase (crank_range s)) html"
proof -
  have "sublist (crank_phrase (crank_range Intake)) (the (updateExplanation 0))"
    "sublist (crank_phrase (crank_range Compression)) (the (updateExplanation 1))"
    "sublist (crank_phrase (crank_range Combustion)) (the (updateExplanation 2))"
    "sublist (crank_phrase (crank_range Exhaust)) (the (updateExplanation 3))"
    by code_simp+
  then show ?thesis
    using stroke_of_Some [OF assms] by (auto simp: updateExplanation_def)
qed

text \<open>
  Claim C31: the crank angle the legend prints and the crank range the explanation panel
  states disagree: in stage \<open>k\<close> the legend prints a value between \<open>90 k\<close> and
  \<open>90 k + 90\<close> degrees (so never more than 360), while the panel, following the
  specification's table, says the crank turns from \<open>180 k\<close> to \<open>180 k + 180\<close>
  degrees (up to 720).
\<close>

theorem legend_angle_vs_explanation:
  assumes "0 \<le> p" and "p < 4" and "stroke_of \<lfloor>p\<rfloor> = Some s"
  shows "90 * \<lfloor>p\<rfloor> \<le> legend_angle p \<and> legend_angle p \<le> 90 * \<lfloor>p\<rfloor> + 90 \<and>
         crank_range s = (nat (180 * \<lfloor>p\<rfloor>), nat (180 * \<lfloor>p\<rfloor> + 180)) \<and>
         (\<exists>html. updateExplanation \<lfloor>p\<rfloor> = Some html \<and> sublist (crank_phrase (crank_range s)) html)"
proof -
  have a: "of_int \<lfloor>p\<rfloor> \<le> p" "p < of_int \<lfloor>p\<rfloor> + 1" by linarith+
  have "of_int (90 * \<lfloor>p\<rfloor>) \<le> p / 4 * 360 + 1 / 2" using a by linarith
  then have lo: "90 * \<lfloor>p\<rfloor> \<le> legend_angle p"
    unfolding legend_angle_def js_round_def by (simp add: le_floor_iff)
  have "p / 4 * 360 + 1 / 2 < of_int (90 * \<lfloor>p\<rfloor> + 90) + 1" using a by linarith
  then have hi: "legend_angle p \<le> 90 * \<lfloor>p\<rfloor> + 90"
    unfolding legend_angle_def js_round_def by (simp add: floor_le_iff)
  have r: "crank_range s = (nat (180 * \<lfloor>p\<rfloor>), nat (180 * \<lfloor>p\<rfloor> + 180))"
    using stroke_of_Some [OF assms(3)] by auto
  show ?thesis using lo hi r explanation_crank_phrase [OF assms(3)] by simp
qed

theorem legend_angle_vs_explanation_witness:
  "90 * \<lfloor>7 / 2 :: real\<rfloor> \<le> legend_angle (7 / 2) \<and> legend_angle (7 / 2) \<le> 90 * \<lfloor>7 / 2 :: real\<rfloor> + 90 \<and>
   crank_range Exhaust = (nat (180 * \<lfloor>7 / 2 :: real\<rfloor>), nat (180 * \<lfloor>7 / 2 :: real\<rfloor> + 180)) \<and>
   (\<exists>html. updateExplanation \<lfloor>7 / 2 :: real\<rfloor> = Some html \<and> sublist (crank_phrase (crank_range Exhaust)) html)"
proof (rule legend_angle_vs_explanation)
  show "stroke_of \<lfloor>7 / 2 :: real\<rfloor> = Some Exhaust" by (simp add: floor_eq_iff)
qed simp_all

subsection \<open>Stage label and explanation panel\<close>

subsection \<open>The rounded rectangle\<close>

text \<open>
  Claim C37: the rounded-rectangle path is closed and stays inside its box: when the radius
  is at most half the width and half the height, the path ends with \<open>closePath\<close> at the
  point it started from, and every end point and control point of its segments lies in
  the rectangle, so every segment (lines and quadratic curves lie in the hull of their
  points) does.
\<close>

theorem roundRect_closed_inside:
  assumes "0 \<le> r" and "2 * r \<le> w" and "2 * r \<le> h"
  shows "last (roundRect x y w h r) = ClosePath \<and>
         hd (concat (map op_points (roundRect x y w h r))) =
           last (concat (map op_points (roundRect x y w h r))) \<and>
         concat (map control_points (roundRect x y w h r)) =
           [(x + w, y), (x + w, y + h), (x, y + h), (x, y)] \<and>
         (\<forall>(a, b) \<in> set (concat (map op_points (roundRect x y w h r))).
            x \<le> a \<and> a \<le> x + w \<and> y \<le> b \<and> b \<le> y + h)"
  using assms by (auto simp: roundRect_def)

theorem roundRect_closed_inside_witness:
  "last (roundRect 250 20 270 130 8) = ClosePath \<and>
   hd (concat (map op_points (roundRect 250 20 270 130 8))) =
     last (concat (map op_points (roundRect 250 20 270 130 8))) \<and>
   concat (map control_points (roundRect 250 20 270 130 8)) =
     [(250 + 270, 20), (250 + 270, 20 + 130), (250, 20 + 130), (250, 20)] \<and>
   set (concat (map op_points (roundRect 250 20 270 130 8))) \<subseteq> {250 .. 520} \<times> {20 .. 150}"
proof -
  have "last (roundRect 250 20 270 130 8) = ClosePath \<and>
        hd (concat (map op_points (roundRect 250 20 270 130 8))) =
          last (concat (map op_points (roundRect 250 20 270 130 8))) \<and>
        concat (map control_points (roundRect 250 20 270 130 8)) =
          [(250 + 270, 20), (250 + 270, 20 + 130), (250, 20 + 130), (250, 20)] \<and>
        (\<forall>(a, b) \<in> set (concat (map op_points (roundRect 250 20 270 130 8))).
           250 \<le> a \<and> a \<le> 250 + 270 \<and> 20 \<le> b \<and> b \<le> 20 + 130)"
    by (rule roundRect_closed_inside) simp_all
  then show ?thesis by fastforce
qed

subsection \<open>Fixed pixel offsets\<close>

text \<open>
  Claim C36: the drawing does not scale to every canvas width. Read off the calls the
  scene makes on the layout of a canvas \<open>w\<close> pixels wide: the centres of both valves
  lie over the cylinder, the piston's rectangle has a positive width, and every point of
  the legend panel's outline lies right of the cylinder and inside the canvas, exactly
  when \<open>520 \<le> w \<le> 657\<close>. The valve offsets, the piston's inset and the legend box
  are fixed pixel values in the code, not fractions of the width.
\<close>

theorem fixed_pixel_layout_fits:
  "(list_all (\<lambda>(a, b). cylinderX (snd (setupCanvas w)) \<le> a \<and>
                        a \<le> cylinderX (snd (setupCanvas w)) + cylinderWidth (snd (setupCanvas w)))
      (concat (map op_points (valve_ops (snd (setupCanvas w)) k))) \<and>
    list_all (\<lambda>(a, b, wd, h). 0 < wd) (fill_rects (piston_ops (snd (setupCanvas w)) (Some py))) \<and>
    list_all (\<lambda>(a, b). cylinderX (snd (setupCanvas w)) + cylinderWidth (snd (setupCanvas w)) \<le> a \<and>
                        a \<le> real (canvas_width (fst (setupCanvas w))))
      (concat (map op_points (legend_ops p k))))
   \<longleftrightarrow> 520 \<le> w \<and> w \<le> 657"
proof -
  have cw: "w < 2 ^ 32 \<Longrightarrow> canvas_width (fst (setupCanvas w)) = w"
    by (simp add: setupCanvas_def Let_def js_simps)
  show ?thesis
  proof (cases "w < 2 ^ 32")
    case True
    then show ?thesis
      by (auto simp: cw valve_ops_def intake_arc_def exhaust_arc_def piston_ops_def
          legend_ops_def roundRect_def Let_def)
  next
    case False
    then have "657 < w" by simp
    moreover have "\<not> (real w * 22 / 100 + real w * 16 / 100 \<le> 250)" using \<open>657 < w\<close> by simp
    ultimately show ?thesis
      by (simp add: legend_ops_def roundRect_def Let_def)
  qed
qed

theorem fixed_pixel_layout_fits_witness:
  "list_all (\<lambda>(a, b). cylinderX (snd (setupCanvas 550)) \<le> a \<and>
                       a \<le> cylinderX (snd (setupCanvas 550)) + cylinderWidth (snd (setupCanvas 550)))
     (concat (map op_points (valve_ops (snd (setupCanvas 550)) 3))) \<and>
   list_all (\<lambda>(a, b, wd, h). 0 < wd) (fill_rects (piston_ops (snd (setupCanvas 550)) (Some 100))) \<and>
   list_all (\<lambda>(a, b). cylinderX (snd (setupCanvas 550)) + cylinderWidth (snd (setupCanvas 550)) \<le> a \<and>
                       a \<le> real (canvas_width (fst (setupCanvas 550))))
     (concat (map op_points (legend_ops (7 / 2) 3)))"
  using fixed_pixel_layout_fits [of 550 3 100 "7 / 2"] by simp

subsection \<open>Well-formed calls\<close>

text \<open>
  Claim C9: every call \<open>drawScene\<close> makes is carried out as written (every colour
  parses, no arc radius is negative, every line width is positive) exactly when the
  progress is in \<open>[0, 4)\<close>; outside it the legend's \<open>undefined\<close> colours are ignored.
\<close>

theorem drawScene_calls_well_formed:
  "list_all op_ok (drawScene_ops (snd (setupCanvas w)) c p) \<longleftrightarrow> 0 \<le> p \<and> p < 4"
proof (cases "0 \<le> p \<and> p < 4")
  case True
  then have "currentStage p = 0 \<or> currentStage p = 1 \<or> currentStage p = 2 \<or> currentStage p = 3"
    by (intro int_cases4) (simp_all add: currentStage_def floor_less_iff)
  then have "list_all op_ok (drawScene_ops (snd (setupCanvas w)) c p)"
    by (auto simp: drawScene_ops_def cylinder_ops_def piston_ops_def valve_ops_def spark_ops_def
        crank_ops_def legend_ops_def intake_arc_def exhaust_arc_def roundRect_ok Let_def
        split: option.splits)
  with True show ?thesis by simp
next
  case False
  then have "p < 0 \<or> 4 \<le> p" by auto
  then have "js_index colors (currentStage p) = None"
    using currentStage_outside stage_tables_outside(2) by blast
  then have "\<not> list_all op_ok (legend_ops p (currentStage p))"
    by (simp add: legend_ops_def Let_def)
  with False show ?thesis by (simp add: drawScene_ops_def Let_def)
qed

subsection \<open>The printed crank angle\<close>

text \<open>
  Claim C30: the legend's fourth line prints the crank angle rounded to the nearest whole
  degree: for a progress of at least 0 it reads \<open>Virabrequim: \<close>, then a decimal
  numeral, then the degree sign, and the numeral reads back as a number \<open>n\<close> with
  \<open>90 p - 1/2 < n \<le> 90 p + 1/2\<close>, where \<open>90 p = (p / 4) * 360\<close> is the exact angle.
\<close>

theorem legend_angle_printed:
  assumes "0 \<le> p"
  shows "\<exists>digits n. texts_of (legend_ops p s) ! 3 = ''Virabrequim: '' @ digits @ [degree_sign] \<and>
                    parse_nat digits = Some n \<and> 90 * p - 1 / 2 < real n \<and> real n \<le> 90 * p + 1 / 2"
proof -
  have a: "0 \<le> legend_angle p"
    using assms js_round_mono [of 0 "p / 4 * 360"]
    by (simp add: legend_angle_def js_round_def)
  have b: "90 * p - 1 / 2 < of_int (legend_angle p) \<and> of_int (legend_angle p) \<le> 90 * p + 1 / 2"
    using js_round_bounds [of "p / 4 * 360"] by (simp add: legend_angle_def)
  have "real (nat (legend_angle p)) = of_int (legend_angle p)" using a by simp
  with a b show ?thesis
    by (simp add: legend_ops_def roundRect_def Let_def int_to_string_nonneg parse_nat_roundtrip)
qed

theorem legend_angle_printed_witness:
  "\<exists>digits n. texts_of (legend_ops (1 / 100) 0) ! 3 = ''Virabrequim: '' @ digits @ [degree_sign] \<and>
              parse_nat digits = Some n \<and> 90 * (1 / 100) - 1 / 2 < real n \<and> real n \<le> 90 * (1 / 100) + 1 / 2"
  by (rule legend_angle_printed) simp

text \<open>
  Claim C32: the crank and the piston are not linked as in an engine. For every progress
  \<open>p\<close> in the first half of the cycle, the piston is drawn at the same height at
  \<open>p\<close> and at \<open>p + 2\<close> (it goes down and up twice per cycle), while the crank arm at
  \<open>p + 2\<close> is the arm at \<open>p\<close> reflected through the crank's centre, pointing the
  opposite way (the arm turns once per cycle). A four-stroke crank turns twice per cycle,
  as the explanation's range 0..720 degrees says, and would point the same way.
\<close>

theorem crank_piston_out_of_phase:
  assumes "0 \<le> p" and "p < 2"
  shows "piston_at l (p + 2) = piston_at l p \<and>
         (\<exists>a b. crank_ops l p ! 7 = LineTo a b \<and>
                crank_ops l (p + 2) ! 7 = LineTo (2 * crankX l - a) (2 * crankY l - b))"
proof -
  have p2: "0 \<le> p + 2" "p + 2 < 4" using assms by simp_all
  have "tri (p + 2) = tri p" using assms by (auto simp: tri_def abs_if min_def)
  then have "piston_at l (p + 2) = piston_at l p"
    using piston_at_closed_form [OF p2, of l] piston_at_closed_form [of p l] assms by simp
  moreover have "crankAngle (p + 2) = crankAngle p + pi"
    by (simp add: crankAngle_def algebra_simps)
  then have "cos (crankAngle (p + 2)) = - cos (crankAngle p)"
    "sin (crankAngle (p + 2)) = - sin (crankAngle p)"
    by (simp_all add: cos_periodic_pi sin_periodic_pi)
  ultimately show ?thesis by (simp add: crank_ops_def Let_def algebra_simps)
qed

theorem crank_piston_out_of_phase_witness:
  "piston_at (snd (setupCanvas 550)) (1 / 2 + 2) = piston_at (snd (setupCanvas 550)) (1 / 2) \<and>
   (\<exists>a b. crank_ops (snd (setupCanvas 550)) (1 / 2) ! 7 = LineTo a b \<and>
          crank_ops (snd (setupCanvas 550)) (1 / 2 + 2) ! 7 =
            LineTo (2 * crankX (snd (setupCanvas 550)) - a) (2 * crankY (snd (setupCanvas 550)) - b))"
  by (rule crank_piston_out_of_phase) simp_all

subsection \<open>What the whole scene paints\<close>

text \<open>
  Claim C11: run on the 2D context from any state, the whole scene of a progress in
  \<open>[0, 4)\<close> paints, in order, the cylinder in grey, the piston in slate, the two valves
  in the colours the stroke table gives them, the spark in yellow exactly in the first
  half of combustion, and the legend panel in translucent white; it strokes the crank's
  circle and radius in dark grey and the panel's outline in the stage colour, and draws
  the five legend lines in the stage colour. No colour depends on the state the
  previous frame left in the context.
\<close>

theorem scene_paint_colors:
  assumes "0 \<le> p" and "p < 4"
  shows "\<exists>s col. stroke_of (currentStage p) = Some s \<and> js_index colors (currentStage p) = Some col \<and>
           fill_colors (snd (paint_ops c (drawScene_ops l cv p))) =
             [''#d1d5db'', ''#4b5e73'', valve_color (intake_valve s), valve_color (exhaust_valve s)] @
             (if s = Combustion \<and> stageProgress p < 1 / 2 then [''#facc15''] else []) @
             [''rgba(255, 255, 255, 0.9)''] \<and>
           stroke_colors (snd (paint_ops c (drawScene_ops l cv p))) = [''#1f2937'', ''#1f2937'', col] \<and>
           text_colors (snd (paint_ops c (drawScene_ops l cv p))) = replicate 5 col"
proof -
  have "currentStage p = 0 \<or> currentStage p = 1 \<or> currentStage p = 2 \<or> currentStage p = 3"
    using assms by (intro int_cases4) (simp_all add: currentStage_def floor_less_iff)
  then show ?thesis
    by (elim disjE)
       (simp_all del: paint_ops.simps(2)
        add: paint_ops_Cons_fst_snd drawScene_ops_def cylinder_ops_def piston_ops_def valve_ops_def
        spark_ops_def crank_ops_def legend_ops_def roundRect_def pistonY_def intake_arc_def
        exhaust_arc_def Let_def assign_color_def numeral_eq_Suc)
qed

theorem scene_paint_colors_witness:
  "\<exists>s col. stroke_of (currentStage (9 / 4)) = Some s \<and> js_index colors (currentStage (9 / 4)) = Some col \<and>
     fill_colors (snd (paint_ops init_ctx (drawScene_ops (snd (setupCanvas 550)) (fst (setupCanvas 550)) (9 / 4)))) =
       [''#d1d5db'', ''#4b5e73'', valve_color (intake_valve s), valve_color (exhaust_valve s)] @
       (if s = Combustion \<and> stageProgress (9 / 4) < 1 / 2 then [''#facc15''] else []) @
       [''rgba(255, 255, 255, 0.9)''] \<and>
     stroke_colors (snd (paint_ops init_ctx (drawScene_ops (snd (setupCanvas 550)) (fst (setupCanvas 550)) (9 / 4)))) =
       [''#1f2937'', ''#1f2937'', col] \<and>
     text_colors (snd (paint_ops init_ctx (drawScene_ops (snd (setupCanvas 550)) (fst (setupCanvas 550)) (9 / 4)))) =
       replicate 5 col"
  by (rule scene_paint_colors) simp_all

end
