(* ===== verification/Quiz.thy ===== *)
theory Quiz
  imports Browser
begin

text \<open>
  The quiz checker: \<open>checkAnswer\<close> (lines 203--213 of \<^verbatim>\<open>src/script.js\<close>). It reads
  the text of the answer box and writes a fixed message and colour into the result
  element; the model takes the answer and the page's text surfaces and returns them
  updated. The lemmas show that exactly the answer \<open>4\<close> is accepted and that every
  other answer gets one and the same reply.
\<close>

definition quiz_success_text :: string where
  "quiz_success_text = ''Correto! A v'' @ [a_acute] @ ''lvula de escape est'' @ [a_acute] @
                       '' aberta na etapa de Exausto.''"

definition quiz_failure_text :: string where
  "quiz_failure_text = ''Incorreto. A v'' @ [a_acute] @ ''lvula de escape est'' @ [a_acute] @
                       '' aberta no Exausto. Tente novamente!''"

definition checkAnswer :: "string \<Rightarrow> dom \<Rightarrow> dom" where
  "checkAnswer answer d =
     (if answer = ''4''
      then d\<lparr>quizResult_text := quiz_success_text,
             quizResult_color := assign_color (quizResult_color d) ''#22c55e''\<rparr>
      else d\<lparr>quizResult_text := quiz_failure_text,
             quizResult_color := assign_color (quizResult_color d) ''#ef4444''\<rparr>)"

lemma quiz_texts_differ: "quiz_success_text \<noteq> quiz_failure_text"
  by (simp add: quiz_success_text_def quiz_failure_text_def)

text \<open>
  Claim C20: the quiz accepts exactly the answer \<open>4\<close>: the result shows the success
  message in green if and only if the submitted text is exactly \<open>4\<close> (so \<open>1\<close>, the
  empty text, \<open>four\<close> or \<open> 4\<close> are all rejected), and every rejected answer leaves the
  page in the same state, with the one failure message in red.
\<close>

theorem checkAnswer_exact:
  "(quizResult_text (checkAnswer a d) = quiz_success_text \<longleftrightarrow> a = ''4'') \<and>
   (quizResult_color (checkAnswer a d) = ''#22c55e'' \<longleftrightarrow> a = ''4'') \<and>
   (a \<noteq> ''4'' \<longrightarrow> checkAnswer a d = checkAnswer ''four'' d \<and>
                   quizResult_text (checkAnswer a d) = quiz_failure_text)"
  using quiz_texts_differ by (simp add: checkAnswer_def assign_color_def)

theorem checkAnswer_exact_witness:
  "(quizResult_text (checkAnswer '' 4'' blank_dom) = quiz_success_text \<longleftrightarrow> '' 4'' = ''4'') \<and>
   (quizResult_color (checkAnswer '' 4'' blank_dom) = ''#22c55e'' \<longleftrightarrow> '' 4'' = ''4'') \<and>
   checkAnswer '' 4'' blank_dom = checkAnswer ''four'' blank_dom \<and>
   quizResult_text (checkAnswer '' 4'' blank_dom) = quiz_failure_text"
proof -
  have "'' 4'' \<noteq> ''4''" by simp
  then show ?thesis using checkAnswer_exact [of "'' 4''" blank_dom] by blast
qed

end
