(* ===== verification/Driver.thy ===== *)
theory Driver
  imports Scene Quiz
begin

text \<open>
  The animation driver and the page's event wiring (lines 1--9, 168--201 and 229--235 of
  \<^verbatim>\<open>src/script.js\<close>).
  \<^item> The module-level variables \<open>animationId\<close>, \<open>animationProgress\<close>,
    \<open>animationRunning\<close> and \<open>lastTime\<close> are the record \<open>anim\<close>. The record
    \<open>world\<close> extends it with the browser state the script acts on: the layout
    variables and the canvas element (written by \<open>setupCanvas\<close>), the page's text
    surfaces, the picture on the canvas (the calls of the last \<open>drawScene\<close>, which
    starts by clearing the whole canvas), and the animation-frame scheduler: the ids of
    the callbacks scheduled with \<open>requestAnimationFrame\<close> and the next id it hands out.
  \<^item> Every function of the driver is a function on \<open>world\<close>: \<open>animate\<close>,
    \<open>startAnimation\<close> (given the value of \<open>performance.now()\<close>),
    \<open>pauseAnimation\<close>, \<open>resetAnimation\<close>, the resize listener \<open>onResize\<close>,
    and the script's top level \<open>page_load\<close>.
  \<^item> What the browser can do next is an \<open>event\<close>: a button press (start, pause, reset,
    quiz answer), a resize, or a scheduled frame callback firing with its timestamp.
    \<open>dispatch\<close> runs the handler of one event; \<open>reach\<close> is the set of worlds
    reachable from the page load by events whose frame timestamps do not go back in time
    and are less than one cycle (8000 ms) apart.
  \<^item> The lemmas: the invariants \<open>driver_inv\<close>, \<open>layout_ok\<close> and \<open>page_ok\<close>
    are kept by every event; \<open>sched_ok\<close>, \<open>layout_ok\<close> and \<open>page_ok\<close> even without
    the timing assumption, on \<open>reach_any\<close> by its invariant rule; runs of frames follow the abstract clock
    \<open>cycle_position\<close>; pause, reset and the specification's Idle/Running machine;
    late and early frames; the order of quiz answers, resizes and frames.
\<close>

subsection \<open>State\<close>

record anim =
  animationId :: "nat option"
  animationProgress :: real
  animationRunning :: bool
  lastTime :: real

record world = anim +
  wlayout :: layout
  wcanvas :: canvas
  wdom :: dom
  frame :: "canvas_op list"
  pending :: "nat list"
  next_id :: nat

subsection \<open>The browser's animation-frame scheduler\<close>

definition requestAnimationFrame :: "world \<Rightarrow> nat \<times> world" where
  "requestAnimationFrame w =
     (next_id w, w\<lparr>pending := pending w @ [next_id w], next_id := Suc (next_id w)\<rparr>)"

definition cancelAnimationFrame :: "nat \<Rightarrow> world \<Rightarrow> world" where
  "cancelAnimationFrame i w = w\<lparr>pending := removeAll i (pending w)\<rparr>"

subsection \<open>The driver\<close>

text \<open>A call \<open>drawScene(progress)\<close>: the canvas shows the new calls, the page the new text.\<close>

definition render :: "real \<Rightarrow> world \<Rightarrow> world" where
  "render progress w =
     (let (ops, d) = drawScene (wlayout w) (wcanvas w) progress (wdom w)
      in w\<lparr>frame := ops, wdom := d\<rparr>)"

text \<open>Lines 175--178: the progress advanced by a time step, wrapped once.\<close>

definition advance :: "real \<Rightarrow> real \<Rightarrow> real" where
  "advance progress deltaTime =
     (let p = progress + (deltaTime / cycleDuration) * 4
      in if 4 \<le> p then p - 4 else p)"

text \<open>Lines 168--182. \<open>!lastTime\<close> holds for the number 0 (the reset value).\<close>

definition animate :: "timestamp \<Rightarrow> world \<Rightarrow> world" where
  "animate timestamp w =
     (if \<not> animationRunning w then w
      else
        let lt = (if lastTime w = 0 then timestamp else lastTime w);
            deltaTime = timestamp - lt;
            p = advance (animationProgress w) deltaTime;
            w1 = render p (w\<lparr>lastTime := timestamp, animationProgress := p\<rparr>);
            (i, w2) = requestAnimationFrame w1
        in w2\<lparr>animationId := Some i\<rparr>)"

text \<open>Lines 184--190; \<open>now\<close> is the value of \<open>performance.now()\<close>.\<close>

definition startAnimation :: "timestamp \<Rightarrow> world \<Rightarrow> world" where
  "startAnimation now w =
     (if \<not> animationRunning w
      then animate now (w\<lparr>animationRunning := True, lastTime := 0\<rparr>)
      else w)"

text \<open>Lines 192--195. \<open>if (animationId)\<close> is false for \<open>null\<close> and for the id 0.\<close>

definition pauseAnimation :: "world \<Rightarrow> world" where
  "pauseAnimation w =
     (let w1 = w\<lparr>animationRunning := False\<rparr>
      in case animationId w1 of
           Some i \<Rightarrow> if i \<noteq> 0 then cancelAnimationFrame i w1 else w1
         | None \<Rightarrow> w1)"

text \<open>Lines 197--201.\<close>

definition resetAnimation :: "world \<Rightarrow> world" where
  "resetAnimation w = render 0 ((pauseAnimation w)\<lparr>animationProgress := 0\<rparr>)"

text \<open>Lines 229--232: the resize listener.\<close>

definition onResize :: "nat \<Rightarrow> world \<Rightarrow> world" where
  "onResize offsetWidth w =
     (let (c, l) = setupCanvas offsetWidth
      in render (animationProgress w) (w\<lparr>wcanvas := c, wlayout := l\<rparr>))"

text \<open>
  Lines 1--9 and 234--235: the module's initial values, then \<open>setupCanvas()\<close> and
  \<open>drawScene(0)\<close>. The scheduler hands out the ids 1, 2, \<dots> (browsers never use 0).
\<close>

definition page_load :: "nat \<Rightarrow> dom \<Rightarrow> world" where
  "page_load offsetWidth d =
     (let (c, l) = setupCanvas offsetWidth
      in render 0 \<lparr>animationId = None, animationProgress = 0, animationRunning = False,
                   lastTime = 0, wlayout = l, wcanvas = c, wdom = d, frame = [],
                   pending = [], next_id = 1\<rparr>)"

subsection \<open>Events\<close>

datatype event =
    Start timestamp
  | Frame nat timestamp
  | Pause
  | Reset
  | Resize nat
  | Answer string

text \<open>
  A frame event runs the scheduled callback with that id (the callback is always
  \<open>animate\<close>) and removes it from the schedule; an id that is not scheduled fires
  nothing.
\<close>

fun dispatch :: "world \<Rightarrow> event \<Rightarrow> world" where
  "dispatch w (Start now) = startAnimation now w"
| "dispatch w (Frame i t) =
     (if i \<in> set (pending w) then animate t (w\<lparr>pending := removeAll i (pending w)\<rparr>) else w)"
| "dispatch w Pause = pauseAnimation w"
| "dispatch w Reset = resetAnimation w"
| "dispatch w (Resize offsetWidth) = onResize offsetWidth w"
| "dispatch w (Answer a) = w\<lparr>wdom := checkAnswer a (wdom w)\<rparr>"

text \<open>
  The timing the browser is assumed to keep: a frame's timestamp is not earlier than the
  previous one the script recorded, and less than one cycle later.
\<close>

fun timely :: "world \<Rightarrow> event \<Rightarrow> bool" where
  "timely w (Frame i t) = (lastTime w \<noteq> 0 \<longrightarrow> lastTime w \<le> t \<and> t < lastTime w + cycleDuration)"
| "timely w _ = True"

inductive reach :: "world \<Rightarrow> bool" where
  load: "reach (page_load offsetWidth d)"
| step: "reach w \<Longrightarrow> timely w e \<Longrightarrow> reach (dispatch w e)"

text \<open>
  The worlds reachable by any events at all, whatever timestamps the browser gives its
  frames: the facts that do not depend on the timing hold here.
\<close>

inductive reach_any :: "world \<Rightarrow> bool" where
  load: "reach_any (page_load offsetWidth d)"
| step: "reach_any w \<Longrightarrow> reach_any (dispatch w e)"


text \<open>Running a sequence of frames: each fires the callback that is scheduled.\<close>

fun frames :: "world \<Rightarrow> timestamp list \<Rightarrow> world" where
  "frames w [] = w"
| "frames w (t # ts) =
     frames (case pending w of [] \<Rightarrow> w | i # _ \<Rightarrow> dispatch w (Frame i t)) ts"

text \<open>Frame timestamps that never go back and are less than a cycle apart.\<close>

fun chain_ok :: "timestamp \<Rightarrow> timestamp list \<Rightarrow> bool" where
  "chain_ok t0 [] = True"
| "chain_ok t0 (t # ts) = (t0 \<le> t \<and> t < t0 + cycleDuration \<and> chain_ok t ts)"

text \<open>Frame timestamps that never go back and are at most \<open>g\<close> ms apart.\<close>

fun gaps_within :: "real \<Rightarrow> timestamp \<Rightarrow> timestamp list \<Rightarrow> bool" where
  "gaps_within g t0 [] = True"
| "gaps_within g t0 (t # ts) = (t0 \<le> t \<and> t - t0 \<le> g \<and> gaps_within g t ts)"

subsection \<open>Invariants\<close>

text \<open>
  The scheduler agrees with the running flag: while running exactly the callback whose id
  is \<open>animationId\<close> is scheduled, otherwise none; ids are positive.
\<close>

definition sched_ok :: "world \<Rightarrow> bool" where
  "sched_ok w \<longleftrightarrow>
     0 < next_id w \<and>
     (if animationRunning w
      then (case animationId w of Some i \<Rightarrow> 0 < i \<and> pending w = [i] | None \<Rightarrow> False)
      else pending w = [] \<and> (case animationId w of Some i \<Rightarrow> 0 < i | None \<Rightarrow> True))"

text \<open>The canvas and the stage label always show the current progress.\<close>

definition display_ok :: "world \<Rightarrow> bool" where
  "display_ok w \<longleftrightarrow>
     frame w = drawScene_ops (wlayout w) (wcanvas w) (animationProgress w) \<and>
     stageIndicator_text (wdom w) =
       ''Etapa: '' @ js_template (js_index stages (currentStage (animationProgress w)))"

definition driver_inv :: "world \<Rightarrow> bool" where
  "driver_inv w \<longleftrightarrow>
     0 \<le> animationProgress w \<and> animationProgress w < 4 \<and> sched_ok w \<and> display_ok w"

text \<open>The canvas and the layout are the ones \<open>setupCanvas\<close> computes for some width.\<close>

definition layout_ok :: "world \<Rightarrow> bool" where
  "layout_ok w \<longleftrightarrow> (\<exists>ow. (wcanvas w, wlayout w) = setupCanvas ow)"

text \<open>The page's stage label and explanation are the ones \<open>drawScene\<close> writes for the
  current progress.\<close>

definition page_ok :: "world \<Rightarrow> bool" where
  "page_ok w \<longleftrightarrow> stage_dom (currentStage (animationProgress w)) (wdom w) = wdom w"

text \<open>The abstract timing: the position in the cycle after some elapsed time.\<close>

definition wrap4 :: "real \<Rightarrow> real" where
  "wrap4 x = x - 4 * of_int \<lfloor>x / 4\<rfloor>"

definition cycle_position :: "real \<Rightarrow> real \<Rightarrow> real" where
  "cycle_position p0 elapsed = wrap4 (p0 + elapsed / stageDuration)"

text \<open>
  The specification's state machine (section 4.4): the driver is idle or running; start
  makes it run, pause and reset make it idle, and every other event keeps the mode.
\<close>

datatype mode = Idle | Running

definition mode_of :: "world \<Rightarrow> mode" where
  "mode_of w = (if animationRunning w then Running else Idle)"

fun spec_step :: "mode \<Rightarrow> event \<Rightarrow> mode" where
  "spec_step m (Start now) = Running"
| "spec_step m (Frame i t) = m"
| "spec_step m Pause = Idle"
| "spec_step m Reset = Idle"
| "spec_step m (Resize ow) = m"
| "spec_step m (Answer a) = m"

subsection \<open>What each operation changes\<close>

text \<open>The unfolding of one run of \<open>animate\<close>, shared by the proofs below.\<close>

lemmas animate_unfold = animate_def requestAnimationFrame_def Let_def

lemma render_fields [simp]:
  "animationId (render p w) = animationId w"
  "animationProgress (render p w) = animationProgress w"
  "animationRunning (render p w) = animationRunning w"
  "lastTime (render p w) = lastTime w"
  "pending (render p w) = pending w"
  "next_id (render p w) = next_id w"
  "wlayout (render p w) = wlayout w"
  "wcanvas (render p w) = wcanvas w"
  "frame (render p w) = drawScene_ops (wlayout w) (wcanvas w) p"
  "wdom (render p w) = stage_dom (currentStage p) (wdom w)"
  by (simp_all add: render_def drawScene_def)

lemma advance_range:
  assumes "0 \<le> p" "p < 4" "0 \<le> d" "d < cycleDuration"
  shows "0 \<le> advance p d \<and> advance p d < 4"
  using assms by (simp add: advance_def cycleDuration_def Let_def)

lemma advance_zero: "0 \<le> p \<Longrightarrow> p < 4 \<Longrightarrow> advance p 0 = p"
  by (simp add: advance_def)

lemma animate_stopped [simp]: "\<not> animationRunning w \<Longrightarrow> animate t w = w"
  by (simp add: animate_def)

lemma animate_running:
  fixes t :: real
  assumes "animationRunning w"
  defines "p' \<equiv> advance (animationProgress w) (t - (if lastTime w = 0 then t else lastTime w))"
  shows "animationProgress (animate t w) = p'"
    and "lastTime (animate t w) = t"
    and "animationRunning (animate t w)"
    and "animationId (animate t w) = Some (next_id w)"
    and "pending (animate t w) = pending w @ [next_id w]"
    and "next_id (animate t w) = Suc (next_id w)"
    and "wlayout (animate t w) = wlayout w"
    and "wcanvas (animate t w) = wcanvas w"
    and "frame (animate t w) = drawScene_ops (wlayout w) (wcanvas w) p'"
    and "wdom (animate t w) = stage_dom (currentStage p') (wdom w)"
  using assms by (simp_all add: animate_unfold Let_def split: prod.splits)

lemma stage_dom_text [simp]:
  "stageIndicator_text (stage_dom k d) = ''Etapa: '' @ js_template (js_index stages k)"
  by (simp add: stage_dom_def Let_def)

lemma pause_fields [simp]:
  "animationProgress (pauseAnimation w) = animationProgress w"
  "\<not> animationRunning (pauseAnimation w)"
  "lastTime (pauseAnimation w) = lastTime w"
  "animationId (pauseAnimation w) = animationId w"
  "next_id (pauseAnimation w) = next_id w"
  "wlayout (pauseAnimation w) = wlayout w"
  "wcanvas (pauseAnimation w) = wcanvas w"
  "wdom (pauseAnimation w) = wdom w"
  "frame (pauseAnimation w) = frame w"
  "pending (pauseAnimation w) =
     (case animationId w of Some i \<Rightarrow> if i \<noteq> 0 then removeAll i (pending w) else pending w
      | None \<Rightarrow> pending w)"
  by (simp_all add: pauseAnimation_def cancelAnimationFrame_def Let_def split: option.splits)

subsection \<open>The invariant is kept by every event\<close>

lemma page_load_inv: "driver_inv (page_load ow d)"
  by (simp add: page_load_def driver_inv_def sched_ok_def display_ok_def split: prod.splits)

lemma start_inv:
  assumes "driver_inv w"
  shows "driver_inv (startAnimation now w)"
proof (cases "animationRunning w")
  case True
  with assms show ?thesis by (simp add: startAnimation_def)
next
  case False
  let ?w1 = "w\<lparr>animationRunning := True, lastTime := 0\<rparr>"
  have r: "animationRunning ?w1" by simp
  from assms have p: "0 \<le> animationProgress w" "animationProgress w < 4"
    by (simp_all add: driver_inv_def)
  from assms False have "pending w = []" "0 < next_id w"
    by (simp_all add: driver_inv_def sched_ok_def)
  then show ?thesis
    using False p animate_running [OF r, of now]
    by (simp add: startAnimation_def driver_inv_def sched_ok_def display_ok_def advance_zero)
qed

lemma frame_inv:
  assumes "driver_inv w" and "timely w (Frame i t)"
  shows "driver_inv (dispatch w (Frame i t))"
proof (cases "i \<in> set (pending w)")
  case False
  with assms show ?thesis by simp
next
  case True
  then have run: "animationRunning w" and pw: "pending w = [i]" and ok: "0 < next_id w"
    using assms(1) by (auto simp: driver_inv_def sched_ok_def split: if_splits option.splits)
  let ?w1 = "w\<lparr>pending := []\<rparr>"
  have step: "dispatch w (Frame i t) = animate t ?w1" using True pw by simp
  have r: "animationRunning ?w1" using run by simp
  define d where "d = t - (if lastTime w = 0 then t else lastTime w)"
  define p' where "p' = advance (animationProgress w) d"
  have "0 \<le> d \<and> d < cycleDuration"
    using assms(2) by (auto simp: d_def cycleDuration_def)
  moreover have "0 \<le> animationProgress w" "animationProgress w < 4"
    using assms(1) by (simp_all add: driver_inv_def)
  ultimately have range: "0 \<le> p' \<and> p' < 4"
    unfolding p'_def using advance_range by blast
  note a = animate_running [OF r, of t]
  have "animationProgress (animate t ?w1) = p'" "animationRunning (animate t ?w1)"
    "animationId (animate t ?w1) = Some (next_id w)" "pending (animate t ?w1) = [next_id w]"
    "next_id (animate t ?w1) = Suc (next_id w)"
    "frame (animate t ?w1) = drawScene_ops (wlayout w) (wcanvas w) p'"
    "wlayout (animate t ?w1) = wlayout w" "wcanvas (animate t ?w1) = wcanvas w"
    "wdom (animate t ?w1) = stage_dom (currentStage p') (wdom w)"
    using a by (simp_all add: p'_def d_def)
  then show ?thesis
    unfolding step driver_inv_def sched_ok_def display_ok_def using range ok by simp
qed

lemma pause_inv:
  assumes "driver_inv w"
  shows "driver_inv (pauseAnimation w)"
  using assms
  by (auto simp: driver_inv_def sched_ok_def display_ok_def pause_fields split: if_splits option.splits)

lemma reset_inv:
  assumes "driver_inv w"
  shows "driver_inv (resetAnimation w)"
  using pause_inv [OF assms]
  by (simp add: resetAnimation_def driver_inv_def sched_ok_def display_ok_def split: option.splits)

lemma resize_inv:
  assumes "driver_inv w"
  shows "driver_inv (onResize ow w)"
  using assms
  by (auto simp: onResize_def driver_inv_def sched_ok_def display_ok_def split: prod.splits option.splits)

lemma answer_inv:
  assumes "driver_inv w"
  shows "driver_inv (w\<lparr>wdom := checkAnswer a (wdom w)\<rparr>)"
  using assms
  by (auto simp: driver_inv_def sched_ok_def display_ok_def checkAnswer_def split: option.splits)

lemma dispatch_inv:
  assumes "driver_inv w" and "timely w e"
  shows "driver_inv (dispatch w e)"
proof (cases e)
  case (Frame i t)
  then show ?thesis using frame_inv [OF assms(1), of i t] assms(2) by simp
qed (use assms in \<open>simp_all add: start_inv pause_inv reset_inv resize_inv answer_inv\<close>)

lemma reach_inv: "reach w \<Longrightarrow> driver_inv w"
  by (induction rule: reach.induct) (simp_all add: page_load_inv dispatch_inv)

text \<open>
  The invariant rule of the untimed reachable set: what holds at every page load and is
  kept by every event holds in every reachable world.
\<close>

lemma reach_any_invariant:
  assumes "\<And>ow d. I (page_load ow d)" and "\<And>w e. I w \<Longrightarrow> I (dispatch w e)"
  shows "reach_any w \<Longrightarrow> I w"
  by (induction rule: reach_any.induct) (simp_all add: assms)

lemma reach_reach_any: "reach w \<Longrightarrow> reach_any w"
  by (induction rule: reach.induct) (auto intro: reach_any.intros)

lemma animate_sched:
  assumes "animationRunning w" and "pending w = []" and "0 < next_id w"
  shows "sched_ok (animate t w)"
  using animate_running [OF assms(1), of t] assms(2,3) by (simp add: sched_ok_def)

lemma dispatch_sched: "sched_ok w \<Longrightarrow> sched_ok (dispatch w e)"
proof (induction e)
  case (Start now)
  then show ?case
    using animate_sched [of "w\<lparr>animationRunning := True, lastTime := 0\<rparr>" now]
    by (auto simp: startAnimation_def sched_ok_def split: option.splits)
next
  case (Frame i t)
  then show ?case
    using animate_sched [of "w\<lparr>pending := removeAll i (pending w)\<rparr>" t]
    by (auto simp: sched_ok_def split: if_splits option.splits)
next
  case Pause
  then show ?case
    by (auto simp: pauseAnimation_def cancelAnimationFrame_def sched_ok_def Let_def
        split: if_splits option.splits)
next
  case Reset
  then show ?case
    by (auto simp: resetAnimation_def pauseAnimation_def cancelAnimationFrame_def sched_ok_def
        Let_def split: if_splits option.splits)
qed (auto simp: sched_ok_def onResize_def split: prod.splits option.splits if_splits)


lemma dispatch_layout: "layout_ok w \<Longrightarrow> layout_ok (dispatch w e)"
proof (cases e)
  case (Resize ow)
  then show ?thesis
    by (auto simp: layout_ok_def onResize_def split: prod.splits) (metis prod.collapse)
qed (auto simp: layout_ok_def startAnimation_def animate_def pauseAnimation_def
       resetAnimation_def cancelAnimationFrame_def requestAnimationFrame_def Let_def
       split: prod.splits option.splits)

lemma reach_layout: "reach_any w \<Longrightarrow> layout_ok w"
proof (rule reach_any_invariant [where I = layout_ok, OF _ dispatch_layout])
  show "layout_ok (page_load ow d)" for ow d
    by (auto simp: layout_ok_def page_load_def split: prod.splits) (metis prod.collapse)
qed

text \<open>The quiz writes only the result element, the renderer only the stage surfaces.\<close>

lemma stage_dom_checkAnswer:
  "stage_dom s (checkAnswer a d) = checkAnswer a (stage_dom s d)"
  by (simp add: stage_dom_def checkAnswer_def Let_def split: option.splits)

lemma animate_page_ok: "page_ok w \<Longrightarrow> page_ok (animate t w)"
  by (auto simp: animate_def page_ok_def requestAnimationFrame_def stage_dom_idem Let_def
      split: prod.splits)

lemma dispatch_page_ok:
  assumes "page_ok w"
  shows "page_ok (dispatch w e)"
proof (cases e)
  case (Start now)
  then show ?thesis
    using assms animate_page_ok [of "w\<lparr>animationRunning := True, lastTime := 0\<rparr>" now]
    by (simp add: startAnimation_def page_ok_def)
next
  case (Frame i t)
  then show ?thesis
    using assms animate_page_ok [of "w\<lparr>pending := removeAll i (pending w)\<rparr>" t]
    by (simp add: page_ok_def)
next
  case Pause
  then show ?thesis using assms
    by (simp add: page_ok_def pauseAnimation_def cancelAnimationFrame_def Let_def split: option.splits)
next
  case Reset
  then show ?thesis by (simp add: resetAnimation_def page_ok_def stage_dom_idem)
next
  case (Resize ow)
  then show ?thesis by (simp add: onResize_def page_ok_def stage_dom_idem split: prod.splits)
next
  case (Answer a)
  then show ?thesis using assms by (simp add: page_ok_def stage_dom_checkAnswer)
qed

lemma reach_page_ok: "reach_any w \<Longrightarrow> page_ok w"
  by (rule reach_any_invariant [where I = page_ok, OF _ dispatch_page_ok])
     (simp add: page_load_def page_ok_def stage_dom_idem split: prod.splits)

subsection \<open>The position in the cycle\<close>

lemma wrap4_range: "0 \<le> wrap4 x \<and> wrap4 x < 4"
proof -
  have "of_int \<lfloor>x / 4\<rfloor> \<le> x / 4" "x / 4 < of_int \<lfloor>x / 4\<rfloor> + 1" by linarith+
  then show ?thesis unfolding wrap4_def by linarith
qed

lemma wrap4_id: "0 \<le> x \<Longrightarrow> x < 4 \<Longrightarrow> wrap4 x = x"
proof -
  assume "0 \<le> x" "x < 4"
  then have "\<lfloor>x / 4\<rfloor> = 0" by (simp add: floor_eq_iff)
  then show ?thesis by (simp add: wrap4_def)
qed

lemma wrap4_shift: "wrap4 (x + 4 * of_int k) = wrap4 x"
proof -
  have "(x + 4 * of_int k) / 4 = x / 4 + of_int k" by simp
  then have "\<lfloor>(x + 4 * of_int k) / 4\<rfloor> = \<lfloor>x / 4 + of_int k\<rfloor>" by (simp only:)
  also have "\<dots> = \<lfloor>x / 4\<rfloor> + k" by (rule floor_add_int [symmetric])
  finally show ?thesis by (simp add: wrap4_def algebra_simps)
qed

lemma wrap4_add: "wrap4 (wrap4 x + y) = wrap4 (x + y)"
proof -
  have "wrap4 x + y = (x + y) + 4 * of_int (- \<lfloor>x / 4\<rfloor>)" by (simp add: wrap4_def)
  then show ?thesis by (simp only: wrap4_shift)
qed

lemma wrap4_plus_4: "0 \<le> x \<Longrightarrow> x < 4 \<Longrightarrow> wrap4 (x + 4) = x"
  using wrap4_shift [of x 1] wrap4_id by simp

lemma advance_wrap4:
  assumes "0 \<le> p" "p < 4" "0 \<le> d" "d < cycleDuration"
  shows "advance p d = wrap4 (p + d / stageDuration)"
proof (cases "4 \<le> p + d / stageDuration")
  case True
  have "p + d / stageDuration < 8" using assms by (simp add: stageDuration_def cycleDuration_def)
  then have "wrap4 (p + d / stageDuration - 4) = p + d / stageDuration - 4"
    using True by (intro wrap4_id) simp_all
  then have "wrap4 (p + d / stageDuration) = p + d / stageDuration - 4"
    using wrap4_shift [of "p + d / stageDuration - 4" 1] by simp
  with True show ?thesis
    by (simp add: advance_def stageDuration_def cycleDuration_def Let_def)
next
  case False
  then have "wrap4 (p + d / stageDuration) = p + d / stageDuration"
    using assms by (intro wrap4_id) (simp_all add: stageDuration_def cycleDuration_def)
  with False show ?thesis
    by (simp add: advance_def stageDuration_def cycleDuration_def Let_def)
qed

subsection \<open>A run of frames\<close>

lemma frame_step:
  assumes "driver_inv w" and "animationRunning w" and "0 < lastTime w"
    and "lastTime w \<le> t" and "t < lastTime w + cycleDuration"
  shows "frames w (t # ts) = frames (dispatch w (Frame (the (animationId w)) t)) ts \<and>
         timely w (Frame (the (animationId w)) t) \<and>
         driver_inv (dispatch w (Frame (the (animationId w)) t)) \<and>
         animationRunning (dispatch w (Frame (the (animationId w)) t)) \<and>
         lastTime (dispatch w (Frame (the (animationId w)) t)) = t \<and>
         animationProgress (dispatch w (Frame (the (animationId w)) t)) =
           wrap4 (animationProgress w + (t - lastTime w) / stageDuration)"
proof -
  obtain i where i: "animationId w = Some i" "pending w = [i]"
    using assms(1,2) by (auto simp: driver_inv_def sched_ok_def split: option.splits)
  have tm: "timely w (Frame i t)" using assms(4,5) by simp
  let ?w1 = "w\<lparr>pending := []\<rparr>"
  have step: "dispatch w (Frame i t) = animate t ?w1" using i by simp
  have r: "animationRunning ?w1" using assms(2) by simp
  have p: "0 \<le> animationProgress w" "animationProgress w < 4"
    using assms(1) by (simp_all add: driver_inv_def)
  have "animationProgress (animate t ?w1) = advance (animationProgress w) (t - lastTime w)"
    using animate_running(1) [OF r, of t] assms(3) by simp
  also have "\<dots> = wrap4 (animationProgress w + (t - lastTime w) / stageDuration)"
    using p assms(4,5) by (intro advance_wrap4) simp_all
  finally show ?thesis
    using i tm step frame_inv [OF assms(1) tm] animate_running(2,3) [OF r, of t] by simp
qed

lemma frames_run:
  assumes "driver_inv w" and "animationRunning w" and "0 < lastTime w"
    and "chain_ok (lastTime w) ts"
  shows "driver_inv (frames w ts) \<and> animationRunning (frames w ts) \<and>
         lastTime (frames w ts) = last (lastTime w # ts) \<and>
         animationProgress (frames w ts) =
           cycle_position (animationProgress w) (last (lastTime w # ts) - lastTime w) \<and>
         (reach w \<longrightarrow> reach (frames w ts))"
  using assms
proof (induction ts arbitrary: w)
  case Nil
  then show ?case
    by (simp add: cycle_position_def wrap4_id driver_inv_def)
next
  case (Cons t ts)
  let ?w' = "dispatch w (Frame (the (animationId w)) t)"
  have c: "lastTime w \<le> t" "t < lastTime w + cycleDuration" "chain_ok t ts"
    using Cons.prems(4) by simp_all
  note s = frame_step [OF Cons.prems(1-3) c(1,2), of ts]
  have "0 < t" using Cons.prems(3) c(1) by linarith
  then have ih: "driver_inv (frames ?w' ts) \<and> animationRunning (frames ?w' ts) \<and>
         lastTime (frames ?w' ts) = last (t # ts) \<and>
         animationProgress (frames ?w' ts) =
           cycle_position (animationProgress ?w') (last (t # ts) - t) \<and>
         (reach ?w' \<longrightarrow> reach (frames ?w' ts))"
    using Cons.IH [of ?w'] s c(3) by simp
  have "cycle_position (animationProgress ?w') (last (t # ts) - t) =
        wrap4 (animationProgress w + (t - lastTime w) / stageDuration + (last (t # ts) - t) / stageDuration)"
    using s by (simp add: cycle_position_def wrap4_add)
  also have "\<dots> = cycle_position (animationProgress w) (last (lastTime w # t # ts) - lastTime w)"
    by (simp add: cycle_position_def add_divide_distrib [symmetric] algebra_simps)
  finally show ?case
    using s ih reach.step [of w "Frame (the (animationId w)) t"] by simp
qed

subsection \<open>Properties of the driver\<close>

text \<open>A page that has been loaded on a 550-pixel canvas and started at time 1000.\<close>

lemma reach_started: "reach (dispatch (page_load 550 blank_dom) (Start 1000))"
  by (rule reach.step [OF reach.load]) simp

lemma started_fields:
  "animationRunning (dispatch (page_load 550 blank_dom) (Start 1000))"
  "lastTime (dispatch (page_load 550 blank_dom) (Start 1000)) = 1000"
  "animationProgress (dispatch (page_load 550 blank_dom) (Start 1000)) = 0"
  "animationId (dispatch (page_load 550 blank_dom) (Start 1000)) = Some 1"
  "pending (dispatch (page_load 550 blank_dom) (Start 1000)) = [1]"
  by (simp_all add: startAnimation_def animate_unfold advance_def
      page_load_def Let_def split: prod.splits)

text \<open>
  Claim C1: in every reachable state the progress is in \<open>[0, 4)\<close>, the canvas shows
  exactly the scene \<open>drawScene\<close> draws for the current progress on the current layout,
  and the stage label names the current stage (never \<open>undefined\<close>): the resize
  listener, start, pause, reset and every frame leave picture and state in agreement.
\<close>

theorem reach_display_current:
  assumes "reach w"
  shows "0 \<le> animationProgress w \<and> animationProgress w < 4 \<and>
         frame w = drawScene_ops (wlayout w) (wcanvas w) (animationProgress w) \<and>
         stageIndicator_text (wdom w) = ''Etapa: '' @ stages ! nat (currentStage (animationProgress w))"
proof -
  have i: "driver_inv w" using assms by (rule reach_inv)
  then have p: "0 \<le> animationProgress w" "animationProgress w < 4"
    by (simp_all add: driver_inv_def)
  then have "js_index stages (currentStage (animationProgress w)) =
             Some (stages ! nat (currentStage (animationProgress w)))"
    by (intro js_index_in_range) (simp_all add: currentStage_def stages_def floor_less_iff)
  with i p show ?thesis by (simp add: driver_inv_def display_ok_def)
qed

theorem reach_display_current_witness:
  "0 \<le> animationProgress (dispatch (page_load 550 blank_dom) (Start 1000)) \<and>
   animationProgress (dispatch (page_load 550 blank_dom) (Start 1000)) < 4 \<and>
   frame (dispatch (page_load 550 blank_dom) (Start 1000)) =
     drawScene_ops (wlayout (dispatch (page_load 550 blank_dom) (Start 1000)))
       (wcanvas (dispatch (page_load 550 blank_dom) (Start 1000)))
       (animationProgress (dispatch (page_load 550 blank_dom) (Start 1000))) \<and>
   stageIndicator_text (wdom (dispatch (page_load 550 blank_dom) (Start 1000))) =
     ''Etapa: '' @ stages ! nat (currentStage (animationProgress (dispatch (page_load 550 blank_dom) (Start 1000))))"
  by (rule reach_display_current [OF reach_started])

text \<open>
  Claim C2: at most one frame callback is ever scheduled, whatever timestamps the
  browser gives its frames (the untimed reachable set \<open>reach_any\<close>): while the
  animation runs, exactly the callback whose id is stored in \<open>animationId\<close> is
  pending, and while it is stopped none is.
\<close>

theorem reach_single_callback:
  assumes "reach_any w"
  shows "(animationRunning w \<longrightarrow> (\<exists>i. animationId w = Some i \<and> pending w = [i])) \<and>
         (\<not> animationRunning w \<longrightarrow> pending w = [])"
proof -
  have "sched_ok w"
    by (rule reach_any_invariant [where I = sched_ok, OF _ dispatch_sched assms])
       (simp add: page_load_def sched_ok_def split: prod.splits)
  then show ?thesis by (auto simp: sched_ok_def split: if_splits option.splits)
qed

theorem reach_single_callback_witness:
  "animationRunning (dispatch (page_load 550 blank_dom) (Start 1000)) \<and>
   (\<exists>i. animationId (dispatch (page_load 550 blank_dom) (Start 1000)) = Some i \<and>
        pending (dispatch (page_load 550 blank_dom) (Start 1000)) = [i])"
  using reach_single_callback [OF reach_reach_any [OF reach_started]] started_fields(1) by blast

text \<open>
  Claim C3: playback follows the clock, whatever the frame rate: from a running state,
  after any sequence of frames whose timestamps never go back and are less than a cycle
  apart, the progress is the abstract cycle position \<open>(p0 + elapsed / 2000) mod 4\<close>,
  where \<open>elapsed\<close> is the time from the last recorded timestamp to the last frame, and
  the state is still reachable.
\<close>

theorem frames_follow_clock:
  assumes "reach w" and "animationRunning w" and "0 < lastTime w"
    and "chain_ok (lastTime w) ts"
  shows "animationProgress (frames w ts) =
           cycle_position (animationProgress w) (last (lastTime w # ts) - lastTime w) \<and>
         reach (frames w ts)"
  using frames_run [OF reach_inv [OF assms(1)] assms(2-4)] assms(1) by simp

theorem frames_follow_clock_witness:
  "animationProgress (frames (dispatch (page_load 550 blank_dom) (Start 1000)) [2500, 3000]) =
     cycle_position (animationProgress (dispatch (page_load 550 blank_dom) (Start 1000)))
       (last (lastTime (dispatch (page_load 550 blank_dom) (Start 1000)) # [2500, 3000]) -
        lastTime (dispatch (page_load 550 blank_dom) (Start 1000))) \<and>
   reach (frames (dispatch (page_load 550 blank_dom) (Start 1000)) [2500, 3000])"
  by (rule frames_follow_clock [OF reach_started])
     (use started_fields in \<open>simp_all add: cycleDuration_def\<close>)

lemma cycle_position_one_stage: "cycle_position 0 2000 = 1"
  by (simp add: cycle_position_def stageDuration_def cycleDuration_def wrap4_id)

text \<open>
  Claim C19: one full cycle takes 8000 ms: starting a stopped animation at time \<open>t0\<close>
  and running frames whose timestamps never go back, are less than a cycle apart and end
  at \<open>t0 + 8000\<close>, the progress returns to the value it had before the start.
\<close>

theorem full_cycle_returns:
  assumes "reach w" and "\<not> animationRunning w" and "0 < t0"
    and "chain_ok t0 ts" and "last (t0 # ts) = t0 + cycleDuration"
  shows "animationProgress (frames (dispatch w (Start t0)) ts) = animationProgress w \<and>
         animationRunning (frames (dispatch w (Start t0)) ts)"
proof -
  let ?w1 = "dispatch w (Start t0)"
  have i: "driver_inv w" using assms(1) by (rule reach_inv)
  have i1: "driver_inv ?w1" using i by (simp add: start_inv)
  have p: "0 \<le> animationProgress w" "animationProgress w < 4"
    using i by (simp_all add: driver_inv_def)
  have r: "animationRunning (w\<lparr>animationRunning := True, lastTime := 0\<rparr>)" by simp
  note a = animate_running [OF r, of t0]
  have f: "animationRunning ?w1" "lastTime ?w1 = t0" "animationProgress ?w1 = animationProgress w"
    using a assms(2) p by (simp_all add: startAnimation_def advance_zero)
  have ne: "ts \<noteq> []" using assms(5) by (auto simp: cycleDuration_def)
  then have l: "last ts = t0 + cycleDuration" using assms(5) by simp
  have "animationProgress (frames ?w1 ts) = cycle_position (animationProgress w) cycleDuration \<and>
        animationRunning (frames ?w1 ts)"
    using frames_run [OF i1 f(1)] f assms(3,4) ne l by simp
  moreover have "cycle_position (animationProgress w) cycleDuration = animationProgress w"
    using p by (simp add: cycle_position_def stageDuration_def cycleDuration_def wrap4_plus_4)
  ultimately show ?thesis by simp
qed

theorem full_cycle_returns_witness:
  "animationProgress (frames (dispatch (page_load 550 blank_dom) (Start 1000)) [5000, 9000]) =
     animationProgress (page_load 550 blank_dom) \<and>
   animationRunning (frames (dispatch (page_load 550 blank_dom) (Start 1000)) [5000, 9000])"
  by (rule full_cycle_returns [OF reach.load])
     (simp_all add: page_load_def cycleDuration_def split: prod.splits)

text \<open>
  Claim C18: reset works from every reachable state: afterwards the progress is exactly 0,
  the animation is stopped with no frame callback scheduled, the canvas shows the scene
  at progress 0 on the current layout, and the stage label reads \<open>Etapa: Admissao\<close>.
\<close>

theorem reset_from_any_state:
  assumes "reach w"
  shows "animationProgress (dispatch w Reset) = 0 \<and> \<not> animationRunning (dispatch w Reset) \<and>
         pending (dispatch w Reset) = [] \<and>
         frame (dispatch w Reset) = drawScene_ops (wlayout w) (wcanvas w) 0 \<and>
         stageIndicator_text (wdom (dispatch w Reset)) = ''Etapa: Admiss'' @ [a_tilde] @ ''o''"
proof -
  have "driver_inv (dispatch w Reset)"
    using reach_inv [OF assms] by (simp add: reset_inv)
  then have "pending (dispatch w Reset) = []"
    by (simp add: driver_inv_def sched_ok_def resetAnimation_def)
  then show ?thesis
    by (simp add: resetAnimation_def currentStage_def)
qed

theorem reset_from_any_state_witness:
  "animationProgress (dispatch (dispatch (page_load 550 blank_dom) (Start 1000)) Reset) = 0 \<and>
   \<not> animationRunning (dispatch (dispatch (page_load 550 blank_dom) (Start 1000)) Reset) \<and>
   pending (dispatch (dispatch (page_load 550 blank_dom) (Start 1000)) Reset) = [] \<and>
   frame (dispatch (dispatch (page_load 550 blank_dom) (Start 1000)) Reset) =
     drawScene_ops (wlayout (dispatch (page_load 550 blank_dom) (Start 1000)))
       (wcanvas (dispatch (page_load 550 blank_dom) (Start 1000))) 0 \<and>
   stageIndicator_text (wdom (dispatch (dispatch (page_load 550 blank_dom) (Start 1000)) Reset)) =
     ''Etapa: Admiss'' @ [a_tilde] @ ''o''"
  by (rule reset_from_any_state [OF reach_started])

text \<open>
  Claim C17: pausing cancels the pending callback at once: after a pause from any
  reachable state no callback is scheduled, progress and picture are unchanged, and no
  frame event has any effect until the next start.
\<close>

theorem pause_cancels:
  assumes "reach w"
  shows "\<not> animationRunning (dispatch w Pause) \<and> pending (dispatch w Pause) = [] \<and>
         animationProgress (dispatch w Pause) = animationProgress w \<and>
         frame (dispatch w Pause) = frame w \<and>
         (\<forall>i t. dispatch (dispatch w Pause) (Frame i t) = dispatch w Pause)"
proof -
  have "driver_inv (dispatch w Pause)"
    using reach_inv [OF assms] by (simp add: pause_inv)
  then have "pending (dispatch w Pause) = []"
    by (simp add: driver_inv_def sched_ok_def)
  then show ?thesis by simp
qed

theorem pause_cancels_witness:
  "\<not> animationRunning (dispatch (dispatch (page_load 550 blank_dom) (Start 1000)) Pause) \<and>
   pending (dispatch (dispatch (page_load 550 blank_dom) (Start 1000)) Pause) = [] \<and>
   animationProgress (dispatch (dispatch (page_load 550 blank_dom) (Start 1000)) Pause) =
     animationProgress (dispatch (page_load 550 blank_dom) (Start 1000)) \<and>
   frame (dispatch (dispatch (page_load 550 blank_dom) (Start 1000)) Pause) =
     frame (dispatch (page_load 550 blank_dom) (Start 1000)) \<and>
   (\<forall>i t. dispatch (dispatch (dispatch (page_load 550 blank_dom) (Start 1000)) Pause) (Frame i t) =
          dispatch (dispatch (page_load 550 blank_dom) (Start 1000)) Pause)"
  by (rule pause_cancels [OF reach_started])

subsection \<open>Frames the browser delivers late or early\<close>

text \<open>
  Claim C25: \<open>animate\<close> wraps the progress only once: from a progress \<open>p\<close> in
  \<open>[0, 4)\<close> and a frame \<open>d\<close> ms after the last one, the new progress is below 4 if and
  only if \<open>p + d / 2000 < 8\<close>. A longer pause between frames (for example a tab that
  was in the background) leaves the progress at 4 or more, and the scene is then drawn
  without a piston under the label \<open>Etapa: undefined\<close>.
\<close>

theorem animate_wraps_once:
  assumes "animationRunning w" and "0 < lastTime w" and "lastTime w \<le> t"
    and "0 \<le> animationProgress w" and "animationProgress w < 4"
  shows "(animationProgress (animate t w) < 4 \<longleftrightarrow>
            animationProgress w + (t - lastTime w) / stageDuration < 8) \<and>
         (8 \<le> animationProgress w + (t - lastTime w) / stageDuration \<longrightarrow>
            stageIndicator_text (wdom (animate t w)) = ''Etapa: undefined'' \<and>
            piston_at (wlayout (animate t w)) (animationProgress (animate t w)) = None)"
proof -
  let ?q = "animationProgress w + (t - lastTime w) / stageDuration"
  note a = animate_running [OF assms(1), of t]
  have a1: "animationProgress (animate t w) = advance (animationProgress w) (t - lastTime w)"
    using a(1) assms(2) by simp
  have e: "(t - lastTime w) / cycleDuration * 4 = (t - lastTime w) / stageDuration"
    by (simp add: stageDuration_def cycleDuration_def)
  have adv: "animationProgress (animate t w) = (if 4 \<le> ?q then ?q - 4 else ?q)"
    by (simp only: a1 advance_def Let_def e)
  have "0 \<le> ?q" using assms(3,4) by (simp add: stageDuration_def cycleDuration_def)
  then have iff: "animationProgress (animate t w) < 4 \<longleftrightarrow> ?q < 8" using adv by auto
  have four: "8 \<le> ?q \<Longrightarrow> 4 \<le> animationProgress (animate t w)" using adv by auto
  have "8 \<le> ?q \<Longrightarrow>
      stageIndicator_text (wdom (animate t w)) = ''Etapa: undefined'' \<and>
      piston_at (wlayout (animate t w)) (animationProgress (animate t w)) = None"
  proof -
    have wd: "wdom (animate t w) = stage_dom (currentStage (animationProgress (animate t w))) (wdom w)"
      using a(1,10) by simp
    assume "8 \<le> ?q"
    then have "4 \<le> animationProgress (animate t w)" by (rule four)
    then show ?thesis
      using outside_no_piston_undefined_label [of "animationProgress (animate t w)" "wlayout w" "wdom w"]
        a(7) wd by simp
  qed
  with iff show ?thesis by blast
qed

theorem animate_wraps_once_witness:
  "(animationProgress (animate 18000 (dispatch (page_load 550 blank_dom) (Start 1000))) < 4 \<longleftrightarrow>
      animationProgress (dispatch (page_load 550 blank_dom) (Start 1000)) +
        (18000 - lastTime (dispatch (page_load 550 blank_dom) (Start 1000))) / stageDuration < 8) \<and>
   stageIndicator_text (wdom (animate 18000 (dispatch (page_load 550 blank_dom) (Start 1000)))) =
     ''Etapa: undefined'' \<and>
   piston_at (wlayout (animate 18000 (dispatch (page_load 550 blank_dom) (Start 1000))))
     (animationProgress (animate 18000 (dispatch (page_load 550 blank_dom) (Start 1000)))) = None"
proof -
  have h: "animationRunning (dispatch (page_load 550 blank_dom) (Start 1000))"
    "0 < lastTime (dispatch (page_load 550 blank_dom) (Start 1000))"
    "lastTime (dispatch (page_load 550 blank_dom) (Start 1000)) \<le> 18000"
    "0 \<le> animationProgress (dispatch (page_load 550 blank_dom) (Start 1000))"
    "animationProgress (dispatch (page_load 550 blank_dom) (Start 1000)) < 4"
    "8 \<le> animationProgress (dispatch (page_load 550 blank_dom) (Start 1000)) +
          (18000 - lastTime (dispatch (page_load 550 blank_dom) (Start 1000))) / stageDuration"
    by (simp_all only: started_fields) (simp_all add: stageDuration_def cycleDuration_def)
  show ?thesis using animate_wraps_once [OF h(1-5)] h(6) by blast
qed

text \<open>
  Claim C26: the first frame after a start can arrive with a timestamp earlier than the
  start time (the browser stamps a frame with the time its rendering began, which may
  precede the \<open>performance.now()\<close> read in the click handler). From a stopped state at
  progress 0, such a frame makes the progress negative, so the scene is drawn without a
  piston under the label \<open>Etapa: undefined\<close>.
\<close>

theorem start_then_early_frame:
  assumes "reach w" and "\<not> animationRunning w" and "animationProgress w = 0"
    and "0 < t'" and "t' < t"
  shows "animationProgress (dispatch (dispatch w (Start t)) (Frame (next_id w) t')) < 0 \<and>
         stageIndicator_text (wdom (dispatch (dispatch w (Start t)) (Frame (next_id w) t'))) =
           ''Etapa: undefined'' \<and>
         piston_at (wlayout w) (animationProgress (dispatch (dispatch w (Start t)) (Frame (next_id w) t'))) = None"
proof -
  let ?w1 = "dispatch w (Start t)"
  have pw: "pending w = []"
    using reach_inv [OF assms(1)] assms(2) by (simp add: driver_inv_def sched_ok_def)
  have r: "animationRunning (w\<lparr>animationRunning := True, lastTime := 0\<rparr>)" by simp
  note a = animate_running [OF r, of t]
  have f: "animationRunning ?w1" "lastTime ?w1 = t" "animationProgress ?w1 = 0"
    "pending ?w1 = [next_id w]" "wlayout ?w1 = wlayout w" "wcanvas ?w1 = wcanvas w"
    using a assms(2,3) pw by (simp_all add: startAnimation_def advance_zero)
  let ?w2 = "dispatch ?w1 (Frame (next_id w) t')"
  have step: "?w2 = animate t' (?w1\<lparr>pending := []\<rparr>)" using f(4) by simp
  have r1: "animationRunning (?w1\<lparr>pending := []\<rparr>)" using f(1) by simp
  note b = animate_running [OF r1, of t']
  have "0 < t" using assms(4,5) by linarith
  then have p2: "animationProgress ?w2 = (t' - t) / cycleDuration * 4"
    using b(1) f(2,3) assms(5) step by (simp add: advance_def cycleDuration_def Let_def)
  then have neg: "animationProgress ?w2 < 0"
    using assms(5) by (simp add: cycleDuration_def)
  have wd: "wdom ?w2 = stage_dom (currentStage (animationProgress ?w2)) (wdom ?w1)"
    using b(1,10) step by simp
  have wl: "wlayout ?w2 = wlayout w" using b(7) step f(5) by simp
  show ?thesis
    using neg outside_no_piston_undefined_label [of "animationProgress ?w2" "wlayout w" "wdom ?w1"] wd
    by simp
qed

theorem start_then_early_frame_witness:
  "animationProgress (dispatch (dispatch (page_load 550 blank_dom) (Start 1000))
      (Frame (next_id (page_load 550 blank_dom)) 990)) < 0 \<and>
   stageIndicator_text (wdom (dispatch (dispatch (page_load 550 blank_dom) (Start 1000))
      (Frame (next_id (page_load 550 blank_dom)) 990))) = ''Etapa: undefined'' \<and>
   piston_at (wlayout (page_load 550 blank_dom))
     (animationProgress (dispatch (dispatch (page_load 550 blank_dom) (Start 1000))
        (Frame (next_id (page_load 550 blank_dom)) 990))) = None"
  by (rule start_then_early_frame [OF reach.load])
     (simp_all add: page_load_def split: prod.splits)

subsection \<open>Recovery after a late frame\<close>

lemma frame_sched:
  assumes "sched_ok w" and "animationRunning w" and "0 < lastTime w" and "lastTime w \<le> t"
  shows "frames w (t # ts) = frames (animate t (w\<lparr>pending := []\<rparr>)) ts \<and>
         sched_ok (animate t (w\<lparr>pending := []\<rparr>)) \<and>
         animationRunning (animate t (w\<lparr>pending := []\<rparr>)) \<and>
         lastTime (animate t (w\<lparr>pending := []\<rparr>)) = t \<and>
         animationProgress (animate t (w\<lparr>pending := []\<rparr>)) =
           advance (animationProgress w) (t - lastTime w)"
proof -
  obtain i where i: "pending w = [i]" "0 < next_id w"
    using assms(1,2) by (auto simp: sched_ok_def split: option.splits)
  have r: "animationRunning (w\<lparr>pending := []\<rparr>)" using assms(2) by simp
  note a = animate_running [OF r, of t]
  show ?thesis using i a assms(3) by (simp add: sched_ok_def)
qed

lemma advance_recovers:
  assumes "0 \<le> p" and "0 \<le> d" and "d \<le> g" and "g < cycleDuration"
  shows "0 \<le> advance p d \<and>
         (if p < 4 then advance p d < 4 else advance p d \<le> p - (4 - g / stageDuration))"
  using assms divide_right_mono [OF assms(3), of stageDuration]
  by (simp add: advance_def stageDuration_def cycleDuration_def Let_def)

lemma frames_recover_run:
  assumes "sched_ok w" and "animationRunning w" and "0 < lastTime w"
    and "0 \<le> animationProgress w" and "g < cycleDuration" and "gaps_within g (lastTime w) ts"
  shows "0 \<le> animationProgress (frames w ts) \<and>
         (animationProgress (frames w ts) < 4 \<or>
          animationProgress (frames w ts) \<le>
            animationProgress w - real (length ts) * (4 - g / stageDuration))"
  using assms
proof (induction ts arbitrary: w)
  case Nil
  then show ?case by simp
next
  case (Cons t ts)
  let ?w' = "animate t (w\<lparr>pending := []\<rparr>)"
  have c: "lastTime w \<le> t" "t - lastTime w \<le> g" "gaps_within g t ts"
    using Cons.prems(6) by simp_all
  note s = frame_sched [OF Cons.prems(1-3) c(1), of ts]
  have e: "0 < 4 - g / stageDuration" using Cons.prems(5) by (simp add: stageDuration_def cycleDuration_def)
  have adv: "0 \<le> animationProgress ?w' \<and>
      (if animationProgress w < 4 then animationProgress ?w' < 4
       else animationProgress ?w' \<le> animationProgress w - (4 - g / stageDuration))"
    using advance_recovers [OF Cons.prems(4) _ c(2) Cons.prems(5)] c(1) s by simp
  have "0 < t" using Cons.prems(3) c(1) by linarith
  then have ih: "0 \<le> animationProgress (frames ?w' ts) \<and>
      (animationProgress (frames ?w' ts) < 4 \<or>
       animationProgress (frames ?w' ts) \<le>
         animationProgress ?w' - real (length ts) * (4 - g / stageDuration))"
    using Cons.IH [of ?w'] s adv c(3) Cons.prems(5) by simp
  have "0 \<le> real (length ts) * (4 - g / stageDuration)" using e by simp
  then show ?case
    using ih adv s e by (auto simp: algebra_simps split: if_splits)
qed

text \<open>
  Claim C27: the animation recovers from a late frame: from any state with a consistent
  schedule, even one whose progress has left \<open>[0, 4)\<close>, frames that are at most
  \<open>g < 8000\<close> ms apart bring the progress back into \<open>[0, 4)\<close> within
  \<open>n\<close> frames as soon as \<open>n (4 - g / 2000)\<close> exceeds the excess \<open>p - 4\<close>.
\<close>

theorem frames_recover:
  assumes "sched_ok w" and "animationRunning w" and "0 < lastTime w"
    and "0 \<le> animationProgress w" and "g < cycleDuration" and "gaps_within g (lastTime w) ts"
    and "animationProgress w - 4 < real (length ts) * (4 - g / stageDuration)"
  shows "0 \<le> animationProgress (frames w ts) \<and> animationProgress (frames w ts) < 4"
  using frames_recover_run [OF assms(1-6)] assms(7) by linarith

theorem frames_recover_witness:
  "0 \<le> animationProgress (frames (dispatch (dispatch (page_load 550 blank_dom) (Start 1000)) (Frame 1 18000))
          [18016, 18032]) \<and>
   animationProgress (frames (dispatch (dispatch (page_load 550 blank_dom) (Start 1000)) (Frame 1 18000))
          [18016, 18032]) < 4"
proof (rule frames_recover [where g = 16])
  let ?w = "dispatch (dispatch (page_load 550 blank_dom) (Start 1000)) (Frame 1 18000)"
  have f: "animationRunning ?w" "lastTime ?w = 18000" "animationProgress ?w = 9 / 2"
    "pending ?w = [2]" "animationId ?w = Some 2" "next_id ?w = 3"
    by (simp_all add: startAnimation_def animate_unfold advance_def
        page_load_def cycleDuration_def Let_def split: prod.splits)
  show "sched_ok ?w" using f by (simp add: sched_ok_def)
  show "animationRunning ?w" by (rule f(1))
  show "0 < lastTime ?w" "0 \<le> animationProgress ?w" using f by simp_all
  show "(16::real) < cycleDuration" by (simp add: cycleDuration_def)
  show "gaps_within 16 (lastTime ?w) [18016, 18032]" using f by simp
  show "animationProgress ?w - 4 < real (length [18016::real, 18032]) * (4 - 16 / stageDuration)"
    using f by (simp add: stageDuration_def cycleDuration_def)
qed

subsection \<open>The page text and the quiz\<close>

text \<open>
  Claim C12: in every reachable state the page shows the current stage: the stage label's
  background is the stage colour and the explanation panel holds the stage's explanation,
  whatever sequence of starts, pauses, resets, frames, resizes and quiz answers led there.
\<close>

theorem reach_page_shows_stage:
  assumes "reach w"
  shows "stageIndicator_background (wdom w) = colors ! nat (currentStage (animationProgress w)) \<and>
         updateExplanation (currentStage (animationProgress w)) = Some (explanation_html (wdom w))"
proof -
  let ?s = "currentStage (animationProgress w)"
  have "driver_inv w" using assms by (rule reach_inv)
  then have "0 \<le> animationProgress w" "animationProgress w < 4"
    by (simp_all add: driver_inv_def)
  then have s: "0 \<le> ?s" "?s < 4"
    by (simp_all add: currentStage_def floor_less_iff)
  have p: "stage_dom ?s (wdom w) = wdom w" using reach_page_ok [OF reach_reach_any [OF assms]] by (simp add: page_ok_def)
  have "stageIndicator_background (stage_dom ?s (wdom w)) = colors ! nat ?s \<and>
        updateExplanation ?s = Some (explanation_html (stage_dom ?s (wdom w)))"
    using int_cases4 [OF s]
    by (auto simp: stage_dom_def assign_color_def updateExplanation_def colors_def js_index_def)
  then show ?thesis using p by simp
qed

theorem reach_page_shows_stage_witness:
  "stageIndicator_background (wdom (dispatch (page_load 550 blank_dom) (Start 1000))) =
     colors ! nat (currentStage (animationProgress (dispatch (page_load 550 blank_dom) (Start 1000)))) \<and>
   updateExplanation (currentStage (animationProgress (dispatch (page_load 550 blank_dom) (Start 1000)))) =
     Some (explanation_html (wdom (dispatch (page_load 550 blank_dom) (Start 1000))))"
  by (rule reach_page_shows_stage [OF reach_started])

text \<open>
  Claim C22: the quiz is independent of the animation: answering the quiz and any
  animation event (start, frame, pause, reset, resize) give the same page and state in
  either order.
\<close>

theorem answer_commutes:
  "dispatch (dispatch w (Answer a)) (Start now) = dispatch (dispatch w (Start now)) (Answer a) \<and>
   dispatch (dispatch w (Answer a)) (Frame i t) = dispatch (dispatch w (Frame i t)) (Answer a) \<and>
   dispatch (dispatch w (Answer a)) Pause = dispatch (dispatch w Pause) (Answer a) \<and>
   dispatch (dispatch w (Answer a)) Reset = dispatch (dispatch w Reset) (Answer a) \<and>
   dispatch (dispatch w (Answer a)) (Resize ow) = dispatch (dispatch w (Resize ow)) (Answer a)"
proof (intro conjI)
  show "dispatch (dispatch w (Answer a)) (Start now) = dispatch (dispatch w (Start now)) (Answer a)"
    by (simp add: startAnimation_def animate_unfold render_def drawScene_def
        stage_dom_checkAnswer Let_def split: prod.splits)
  show "dispatch (dispatch w (Answer a)) (Frame i t) = dispatch (dispatch w (Frame i t)) (Answer a)"
    by (simp add: animate_unfold render_def drawScene_def
        stage_dom_checkAnswer Let_def split: prod.splits)
  show "dispatch (dispatch w (Answer a)) Pause = dispatch (dispatch w Pause) (Answer a)"
    by (simp add: pauseAnimation_def cancelAnimationFrame_def Let_def split: option.splits)
  show "dispatch (dispatch w (Answer a)) Reset = dispatch (dispatch w Reset) (Answer a)"
    by (simp add: resetAnimation_def pauseAnimation_def cancelAnimationFrame_def render_def
        drawScene_def stage_dom_checkAnswer Let_def split: option.splits)
  show "dispatch (dispatch w (Answer a)) (Resize ow) = dispatch (dispatch w (Resize ow)) (Answer a)"
    by (simp add: onResize_def render_def drawScene_def stage_dom_checkAnswer split: prod.splits)
qed


subsection \<open>The state machine and the order of events\<close>

text \<open>
  Claim C13: the driver implements the specification's state machine: in every state, the
  mode after an event (running or idle) is the one the specification's transition
  function gives for the mode before it; in particular a frame never starts or stops the
  animation, and a start while running keeps it running.
\<close>

theorem dispatch_refines_mode: "mode_of (dispatch w e) = spec_step (mode_of w) e"
proof (cases e)
  case (Start now)
  then show ?thesis
    by (simp add: mode_of_def startAnimation_def animate_unfold Let_def
        split: prod.splits)
next
  case (Frame i t)
  then show ?thesis
    by (simp add: mode_of_def animate_unfold Let_def split: prod.splits)
qed (simp_all add: mode_of_def pauseAnimation_def cancelAnimationFrame_def resetAnimation_def
       onResize_def Let_def split: option.splits prod.splits)

text \<open>
  Claim C23: a resize and a frame can arrive in either order: from a reachable state, with
  a frame timestamp the browser may deliver, resizing then running the frame gives the
  same page, picture, progress and schedule as running the frame then resizing.
\<close>

theorem resize_frame_commute:
  assumes "reach w" and "timely w (Frame i t)"
  shows "dispatch (dispatch w (Resize ow)) (Frame i t) = dispatch (dispatch w (Frame i t)) (Resize ow)"
proof (cases "i \<in> set (pending w)")
  case False
  then show ?thesis by (simp add: onResize_def split: prod.splits)
next
  case True
  have inv: "driver_inv w" using assms(1) by (rule reach_inv)
  then have run: "animationRunning w"
    using True by (auto simp: driver_inv_def sched_ok_def split: if_splits option.splits)
  have "driver_inv (dispatch w (Frame i t))" using frame_inv [OF inv assms(2)] .
  then have "0 \<le> animationProgress (dispatch w (Frame i t))" "animationProgress (dispatch w (Frame i t)) < 4"
    by (simp_all add: driver_inv_def)
  moreover have "animationProgress (dispatch w (Frame i t)) =
      advance (animationProgress w) (t - (if lastTime w = 0 then t else lastTime w))"
    using True run animate_running(1) [of "w\<lparr>pending := removeAll i (pending w)\<rparr>" t] by simp
  ultimately have r: "0 \<le> currentStage (advance (animationProgress w) (t - (if lastTime w = 0 then t else lastTime w)))"
      "currentStage (advance (animationProgress w) (t - (if lastTime w = 0 then t else lastTime w))) < 4"
    by (simp_all add: currentStage_def floor_less_iff)
  obtain c l where cl: "setupCanvas ow = (c, l)" by fastforce
  show ?thesis
  proof (cases "lastTime w = 0")
    case True
    then show ?thesis
      using \<open>i \<in> set (pending w)\<close> run stage_dom_absorb [OF r]
      by (simp add: onResize_def cl animate_unfold render_def drawScene_def
          Let_def)
  next
    case False
    then show ?thesis
      using \<open>i \<in> set (pending w)\<close> run stage_dom_absorb [OF r]
      by (simp add: onResize_def cl animate_unfold render_def drawScene_def
          Let_def)
  qed
qed

theorem resize_frame_commute_witness:
  "dispatch (dispatch (dispatch (page_load 550 blank_dom) (Start 1000)) (Resize 1100)) (Frame 1 2000) =
   dispatch (dispatch (dispatch (page_load 550 blank_dom) (Start 1000)) (Frame 1 2000)) (Resize 1100)"
  by (rule resize_frame_commute [OF reach_started]) (use started_fields in \<open>simp add: cycleDuration_def\<close>)


text \<open>
  Claim C16: starting runs the first tick at once: from a stopped reachable state, the
  start handler itself draws the scene at the unchanged progress, records the start time
  and schedules exactly one frame callback, whose id it stores.
\<close>

theorem start_renders_immediately:
  assumes "reach w" and "\<not> animationRunning w"
  shows "animationRunning (dispatch w (Start t)) \<and>
         animationProgress (dispatch w (Start t)) = animationProgress w \<and>
         lastTime (dispatch w (Start t)) = t \<and>
         frame (dispatch w (Start t)) = drawScene_ops (wlayout w) (wcanvas w) (animationProgress w) \<and>
         pending (dispatch w (Start t)) = [next_id w] \<and>
         animationId (dispatch w (Start t)) = Some (next_id w)"
proof -
  have i: "driver_inv w" using assms(1) by (rule reach_inv)
  then have pw: "pending w = []" using assms(2) by (simp add: driver_inv_def sched_ok_def)
  have p: "0 \<le> animationProgress w" "animationProgress w < 4" using i by (simp_all add: driver_inv_def)
  have r: "animationRunning (w\<lparr>animationRunning := True, lastTime := 0\<rparr>)" by simp
  note a = animate_running [OF r, of t]
  show ?thesis using a assms(2) p pw by (simp add: startAnimation_def advance_zero)
qed

theorem start_renders_immediately_witness:
  "animationRunning (dispatch (page_load 550 blank_dom) (Start 1000)) \<and>
   animationProgress (dispatch (page_load 550 blank_dom) (Start 1000)) = animationProgress (page_load 550 blank_dom) \<and>
   lastTime (dispatch (page_load 550 blank_dom) (Start 1000)) = 1000 \<and>
   frame (dispatch (page_load 550 blank_dom) (Start 1000)) =
     drawScene_ops (wlayout (page_load 550 blank_dom)) (wcanvas (page_load 550 blank_dom))
       (animationProgress (page_load 550 blank_dom)) \<and>
   pending (dispatch (page_load 550 blank_dom) (Start 1000)) = [next_id (page_load 550 blank_dom)] \<and>
   animationId (dispatch (page_load 550 blank_dom) (Start 1000)) = Some (next_id (page_load 550 blank_dom))"
  by (rule start_renders_immediately [OF reach.load]) (simp add: page_load_def split: prod.splits)

end
