(* ===== verification/Spec2Isabelle.thy ===== *)
theory Spec2Isabelle
  imports Stages Layout Scene Quiz Driver
begin

text \<open>
  A verification library for \<^verbatim>\<open>src/script.js\<close>, the four-stroke engine animation with
  its quiz. The script has five parts, which the theories model one each, in the order
  the code calls them:

  \<^item> \<^bold>\<open>Prelude\<close>: the JavaScript semantics the other theories share. Numbers are
    \<open>real\<close> (the script only adds, multiplies, divides and compares, and IEEE rounding
    is not modelled); \<open>undefined\<close> is \<open>None\<close>; an array read \<open>xs[i]\<close> is
    \<open>js_index\<close> (undefined outside the array, never an exception); \<open>`${v}`\<close> is
    \<open>js_template\<close>; \<open>Math.round\<close> is \<open>js_round\<close> (halves towards \<open>+\<infinity>\<close>);
    \<open>String(n)\<close> of an integral number is \<open>int_to_string\<close>, and \<open>parse_nat\<close>
    reads a decimal numeral back.
  \<^item> \<^bold>\<open>Stages\<close> (Stage Model): the constants \<open>cycleDuration\<close>, \<open>stageDuration\<close>,
    the arrays \<open>stages\<close> and \<open>colors\<close>, \<open>getStageDescription\<close> and
    \<open>updateExplanation\<close> (lines 5--8, 95--96, 130--166), as functions from a stage
    number to \<open>string option\<close>; and the specification's stroke table (section 4.2) as
    the datatypes \<open>stroke\<close>, \<open>motion\<close>, \<open>valve\<close> with \<open>stroke_of\<close>,
    \<open>piston_motion\<close>, \<open>intake_valve\<close>, \<open>exhaust_valve\<close>: the abstract
    specification the renderer refines.
  \<^item> \<^bold>\<open>Layout\<close> (Geometry Layout): \<open>setupCanvas\<close> (lines 14--33) as a function of
    the canvas's \<open>offsetWidth\<close> returning the canvas element's integer attributes
    (Web IDL \<open>unsigned long\<close> conversion, \<open>webidl_unsigned_long\<close>) and the twelve
    module-level layout variables as the record \<open>layout\<close>.
  \<^item> \<^bold>\<open>Browser\<close>: the environment, which is not code of the repository. The
    2D context is the datatype \<open>canvas_op\<close> of the calls the script makes, with an
    interpreter (\<open>exec_op\<close>, \<open>paint_ops\<close>) that tracks fill and stroke style, line
    width, font and current path and returns what is painted; a colour assignment the
    browser does not parse (\<open>css_color\<close>) is ignored (\<open>assign_color\<close>). The page's
    text surfaces are the record \<open>dom\<close>.
  \<^item> \<^bold>\<open>Scene\<close> (Scene Renderer): \<open>drawScene\<close> (lines 35--128) as the list of
    context calls it issues (\<open>drawScene_ops\<close>, composed of \<open>cylinder_ops\<close>,
    \<open>piston_ops\<close>, \<open>valve_ops\<close>, \<open>spark_ops\<close>, \<open>crank_ops\<close>, \<open>legend_ops\<close>, in
    the code's order) and the page update \<open>stage_dom\<close>; \<open>pistonY\<close> is the code's
    \<open>switch\<close> returning \<open>None\<close> for a stage outside 0..3, exactly where the code
    leaves \<open>pistonY\<close> undefined. The \<open>roundRect\<close> polyfill (lines 215--227) is the
    path it builds.
  \<^item> \<^bold>\<open>Quiz\<close> (Quiz Checker): \<open>checkAnswer\<close> (lines 203--213) on the answer text
    and the page.
  \<^item> \<^bold>\<open>Driver\<close> (Animation Driver and event wiring): the module variables
    (lines 1--9) as the record \<open>anim\<close>, extended to \<open>world\<close> with the layout, the
    canvas element, the page, the picture (the calls of the last \<open>drawScene\<close>) and
    the browser's animation-frame scheduler (pending callback ids, next id).
    \<open>animate\<close>, \<open>startAnimation\<close>, \<open>pauseAnimation\<close>, \<open>resetAnimation\<close>,
    the resize listener \<open>onResize\<close> and the top level \<open>page_load\<close> (lines 168--201,
    229--235) are functions on \<open>world\<close>; \<open>requestAnimationFrame\<close> and
    \<open>cancelAnimationFrame\<close> are the scheduler's. The browser's choices are the
    datatype \<open>event\<close> (button presses, resize, quiz answer, a scheduled callback
    firing with a timestamp), run by \<open>dispatch\<close>; \<open>reach\<close> is the inductive set
    of reachable worlds.

  What the lemmas show.
  \<^item> Driver: the invariant \<open>driver_inv\<close> (progress in \<open>[0, 4)\<close>, the scheduler
    holds exactly the callback \<open>animationId\<close> names while running and none while
    stopped, picture and stage label show the current progress) holds at the page load
    and is kept by every event (\<open>dispatch_inv\<close>, \<open>reach_inv\<close>, by rule induction);
    so are \<open>layout_ok\<close> (canvas and layout come from \<open>setupCanvas\<close>) and
    \<open>page_ok\<close> (the stage label and explanation are those of the current stage). The
    scheduler invariant \<open>sched_ok\<close>, \<open>layout_ok\<close> and \<open>page_ok\<close> do not depend
    on the timing: they hold on \<open>reach_any\<close>, the worlds reachable by any events,
    by its invariant rule \<open>reach_any_invariant\<close>. The
    driver refines the specification's Idle/Running machine (\<open>mode_of\<close>,
    \<open>spec_step\<close>); a quiz answer commutes with every animation event, and a resize
    with a frame. Over a run of frames the progress equals the abstract
    cycle position \<open>cycle_position\<close> (a refinement of the specification's timing
    contract); pause cancels, reset returns to 0 from any state; the one-wrap
    arithmetic and the first frame after a start are analysed where the browser is
    late or early, and a run of regular frames recovers the range.
  \<^item> Scene: every table lookup is defined on \<open>[0, 4)\<close> and what is drawn outside
    it; the piston is continuous (a triangle-wave closed form \<open>tri\<close>), inside the
    cylinder, and moves as the stroke table says; the valve colours and legend words
    refine the table; the spark's exact window; crank angle monotonicity; the legend's
    angle against the explanation's range, and that the printed angle reads back
    (\<open>parse_nat\<close>) as the rounded angle; the fixed-pixel offsets against the
    proportional layout; every call is well formed (\<open>op_ok\<close>) exactly on
    \<open>[0, 4)\<close>; run through the
    context interpreter, the whole scene fills, strokes and writes in the colours the
    stroke table and the stage colour prescribe, whatever state the previous frame
    left in the context (composed block by block with \<open>paint_ops_Cons_fst_snd\<close> and
    the observations \<open>fill_colors\<close>, \<open>stroke_colors\<close>, \<open>text_colors\<close>).
  \<^item> Stages: the hand-written explanation texts equal the ones generated from the
    stroke table (\<open>explanation_of\<close>).
  \<^item> Layout: the canvas attributes, and that the layout scales linearly.
  \<^item> Quiz: exactly the answer \<open>4\<close> is accepted.
  \<^item> This theory: properties spanning the parts (the piston on every reachable
    canvas lies inside the cylinder; the quiz's answer is the stage whose exhaust
    valve the scene paints green).

  Assumptions. The frame timestamps the browser delivers are assumed not to go back
  and to be less than one cycle (8000 ms) after the last recorded one (\<open>timely\<close>,
  \<open>chain_ok\<close>); the claims that drop the assumption show what the code then does.
  No fuel is needed: the script has no loop of its own (its animation loop is the
  browser's chain of frame callbacks, modelled by \<open>dispatch\<close> and \<open>frames\<close>), and
  every definition is total and non-recursive except \<open>nat_to_string\<close> (terminating
  on \<open>n div 10\<close>) and the list recursions \<open>frames\<close>, \<open>chain_ok\<close>,
  \<open>gaps_within\<close>, \<open>paint_ops\<close>.

  Not modelled. \<^verbatim>\<open>index.html\<close> and the style sheet (markup and CSS, not code);
  the DOM lookups (\<open>getElementById\<close>, which the page always satisfies) and the
  button \<open>onclick\<close> wiring, modelled only as the events that call the handlers;
  rasterisation of the canvas (the model stops at the calls and the paint they
  produce); IEEE-754 rounding and the text of \<open>innerHTML\<close> as parsed HTML (it is kept
  as the string the code assigns).
\<close>

subsection \<open>Properties spanning the parts\<close>

text \<open>
  Claim C10: on every reachable page the canvas shows a piston, and it lies inside the
  cylinder of the current layout: the picture contains the piston's filled rectangle,
  whose top is not above the cylinder's top and whose bottom is not below the
  cylinder's bottom, through every start, pause, reset, frame and resize.
\<close>

theorem reach_piston_drawn_inside:
  assumes "reach w"
  shows "\<exists>y. FillRect (cylinderX (wlayout w) + 8) y (cylinderWidth (wlayout w) - 16)
              (pistonHeight (wlayout w)) \<in> set (frame w) \<and>
            cylinderY (wlayout w) \<le> y \<and>
            y + pistonHeight (wlayout w) \<le> cylinderY (wlayout w) + cylinderHeight (wlayout w)"
proof -
  obtain ow where l: "wlayout w = snd (setupCanvas ow)"
    using reach_layout [OF reach_reach_any [OF assms]] unfolding layout_ok_def by (metis snd_conv)
  have "driver_inv w" using assms by (rule reach_inv)
  then have p: "0 \<le> animationProgress w" "animationProgress w < 4"
    and f: "frame w = drawScene_ops (wlayout w) (wcanvas w) (animationProgress w)"
    by (simp_all add: driver_inv_def display_ok_def)
  let ?p = "animationProgress w"
  let ?l = "snd (setupCanvas ow)"
  let ?D = "pistonBottom ?l - pistonTop ?l"
  define y where "y = pistonTop ?l + ?D * tri ?p"
  have D: "0 \<le> ?D" by simp
  have t: "0 \<le> tri ?p" "tri ?p \<le> 1" using tri_bounds [OF p] by simp_all
  have "0 \<le> ?D * tri ?p" using D t(1) by simp
  moreover have "?D * tri ?p \<le> ?D" using D t(2) by (simp add: mult_left_le)
  ultimately have b: "cylinderY ?l \<le> y \<and> y + pistonHeight ?l \<le> cylinderY ?l + cylinderHeight ?l"
    using setupCanvas_piston_travel [of ow] unfolding y_def by linarith
  have "pistonY ?l (currentStage ?p) (stageProgress ?p) = Some y"
    using piston_at_closed_form [OF p, of ?l] unfolding y_def piston_at_def by simp
  then have "FillRect (cylinderX ?l + 8) y (cylinderWidth ?l - 16) (pistonHeight ?l) \<in> set (frame w)"
    unfolding f l drawScene_ops_def Let_def piston_ops_def by simp
  with b l show ?thesis by auto
qed

theorem reach_piston_drawn_inside_witness:
  "\<exists>y. FillRect (cylinderX (wlayout (dispatch (page_load 550 blank_dom) (Start 1000))) + 8) y
         (cylinderWidth (wlayout (dispatch (page_load 550 blank_dom) (Start 1000))) - 16)
         (pistonHeight (wlayout (dispatch (page_load 550 blank_dom) (Start 1000))))
         \<in> set (frame (dispatch (page_load 550 blank_dom) (Start 1000))) \<and>
       cylinderY (wlayout (dispatch (page_load 550 blank_dom) (Start 1000))) \<le> y \<and>
       y + pistonHeight (wlayout (dispatch (page_load 550 blank_dom) (Start 1000))) \<le>
         cylinderY (wlayout (dispatch (page_load 550 blank_dom) (Start 1000))) +
         cylinderHeight (wlayout (dispatch (page_load 550 blank_dom) (Start 1000)))"
  by (rule reach_piston_drawn_inside [OF reach_started])

text \<open>
  Claim C21: the quiz and the scene agree. For a stage \<open>k\<close> in 0..3, the quiz accepts the
  answer \<open>String(k + 1)\<close> (the stage's number as the page counts, from 1) exactly when
  the scene drawn in stage \<open>k\<close> paints the exhaust valve green: only the fourth stage,
  exhaust, passes both tests.
\<close>

theorem quiz_answer_matches_scene:
  assumes "0 \<le> stage" and "stage < 4"
  shows "(quizResult_text (checkAnswer (int_to_string (stage + 1)) d) = quiz_success_text) \<longleftrightarrow>
         snd (paint_ops c (valve_ops l stage)) ! 1 = PaintPath ''#22c55e'' [exhaust_arc l]"
proof -
  have s: "int_to_string (stage + 1) = [''0123456789'' ! nat (stage + 1)]"
    using assms by (intro int_to_string_digit) simp_all
  have "stage = 0 \<or> stage = 1 \<or> stage = 2 \<or> stage = 3" using assms by (rule int_cases4)
  then show ?thesis
    unfolding s using quiz_texts_differ
    by (auto simp: checkAnswer_def valve_ops_def assign_color_def intake_arc_def exhaust_arc_def)
qed

theorem quiz_answer_matches_scene_witness:
  "(quizResult_text (checkAnswer (int_to_string (3 + 1)) blank_dom) = quiz_success_text) \<longleftrightarrow>
   snd (paint_ops init_ctx (valve_ops (snd (setupCanvas 550)) 3)) ! 1 =
     PaintPath ''#22c55e'' [exhaust_arc (snd (setupCanvas 550))]"
  by (rule quiz_answer_matches_scene) simp_all

end
